theory Spec2Isabelle
  imports Main
begin

section \<open>JavaScript exceptions, logging and shared data\<close>

text \<open>
  An exception is a value: \<open>error.code\<close> (absent on most errors) and the message.
  A method that mutates the state \<open>'s\<close> and may throw is a function from the state to
  an outcome and the state as the method left it: \<open>Inl e\<close> is \<open>throw e\<close>, \<open>Inr v\<close>
  is \<open>return v\<close>. What was mutated before a throw stays mutated, as in JavaScript.
\<close>

datatype js_error = JsError (err_code: "string option") (err_message: string)

type_synonym ('s, 'a) js = "'s \<Rightarrow> (js_error + 'a) \<times> 's"

datatype log_level = Info | Success | Warning | Error | Security | Command | Database

datatype log_entry = Log log_level string "js_error option"

text \<open>The inbound notifications of the transport (section 6 of the specification).\<close>

record message =
  senderID :: string
  threadID :: string
  messageID :: string
  body :: string

record reaction =
  reactSenderID :: string
  reactMessageID :: string
  emoji :: string

record event =
  eventType :: string
  payload :: string

section \<open>BotManager (src/core/BotManager.js)\<close>

record stats =
  messagesProcessed :: nat
  commandsExecuted :: nat
  errors :: nat
  uptime :: nat

text \<open>
  \<open>FacebookAPI.js\<close> is not part of the sources; of the transport object the manager only
  uses \<open>isConnected()\<close>, a boolean by section 6 of the specification.
\<close>

record FacebookAPI =
  fbConnected :: bool

text \<open>
  The fields of the class. The collaborators are \<open>null\<close> until \<open>initialize()\<close> has
  constructed them; their own state is a type parameter each.
\<close>

record ('sec, 'rl, 'mh, 'em) BotManager =
  securityManager :: "'sec option"
  rateLimiter :: "'rl option"
  messageHandler :: "'mh option"
  eventManager :: "'em option"
  commandManager :: "unit option"
  facebookAPI :: "FacebookAPI option"
  isRunning :: bool
  botInfo :: "(string \<times> string) option"
  listening :: bool
  periodicTasks :: bool
  startTime :: nat
  stats :: stats
  logger :: "log_entry list"

text \<open>
  The methods of the collaborators whose classes are not part of the sources
  (SecurityManager, RateLimiter, MessageHandler, EventManager): parameters of the model.
\<close>

record ('sec, 'rl, 'mh, 'em) collaborators =
  checkMessage :: "message \<Rightarrow> ('sec, bool) js"
  checkLimit :: "string \<Rightarrow> ('rl, bool) js"
  handle :: "message \<Rightarrow> ('mh, unit) js"
  handleReaction :: "reaction \<Rightarrow> ('mh, unit) js"
  handleEv :: "event \<Rightarrow> ('em, unit) js"

definition typeError :: js_error where
  "typeError = JsError None ''TypeError: Cannot read properties of null''"

definition logTo :: "log_entry \<Rightarrow> ('sec, 'rl, 'mh, 'em) BotManager \<Rightarrow> ('sec, 'rl, 'mh, 'em) BotManager" where
  "logTo l b = b\<lparr>logger := logger b @ [l]\<rparr>"

definition countError :: "('sec, 'rl, 'mh, 'em) BotManager \<Rightarrow> ('sec, 'rl, 'mh, 'em) BotManager" where
  "countError b = b\<lparr>stats := (stats b)\<lparr>errors := errors (stats b) + 1\<rparr>\<rparr>"

definition newBotManager :: "nat \<Rightarrow> ('sec, 'rl, 'mh, 'em) BotManager" where
  "newBotManager now =
     \<lparr>securityManager = None, rateLimiter = None, messageHandler = None,
      eventManager = None, commandManager = None, facebookAPI = None,
      isRunning = False, botInfo = None, listening = False, periodicTasks = False, startTime = now,
      stats = \<lparr>messagesProcessed = 0, commandsExecuted = 0, errors = 0, uptime = 0\<rparr>,
      logger = []\<rparr>"

subsection \<open>handleMessage, handleEvent, handleReaction\<close>

text \<open>The body of the \<open>try\<close> block of \<open>handleMessage\<close>.\<close>

definition handleMessage_try ::
  "('sec, 'rl, 'mh, 'em) collaborators \<Rightarrow> message \<Rightarrow> (('sec, 'rl, 'mh, 'em) BotManager, unit) js" where
  "handleMessage_try c m b =
     (case securityManager b of
        None \<Rightarrow> (Inl typeError, b)
      | Some sec \<Rightarrow>
         (case checkMessage c m sec of
            (Inl e, sec') \<Rightarrow> (Inl e, b\<lparr>securityManager := Some sec'\<rparr>)
          | (Inr ok, sec') \<Rightarrow>
             (let b1 = b\<lparr>securityManager := Some sec'\<rparr> in
              if \<not> ok then
                (Inr (), logTo (Log Security (''Message blocked by security check: '' @ senderID m) None) b1)
              else
                (case rateLimiter b1 of
                   None \<Rightarrow> (Inl typeError, b1)
                 | Some rl \<Rightarrow>
                    (case checkLimit c (senderID m) rl of
                       (Inl e, rl') \<Rightarrow> (Inl e, b1\<lparr>rateLimiter := Some rl'\<rparr>)
                     | (Inr admitted, rl') \<Rightarrow>
                        (let b2 = b1\<lparr>rateLimiter := Some rl'\<rparr> in
                         if \<not> admitted then
                           (Inr (), logTo (Log Security (''Rate limit exceeded for user: '' @ senderID m) None) b2)
                         else
                           (case messageHandler b2 of
                              None \<Rightarrow> (Inl typeError, b2)
                            | Some mh \<Rightarrow>
                               (case handle c m mh of
                                  (r, mh') \<Rightarrow> (r, b2\<lparr>messageHandler := Some mh'\<rparr>)))))))))"

definition handleMessage ::
  "('sec, 'rl, 'mh, 'em) collaborators \<Rightarrow> message \<Rightarrow> (('sec, 'rl, 'mh, 'em) BotManager, unit) js" where
  "handleMessage c m b =
     (let b0 = b\<lparr>stats := (stats b)\<lparr>messagesProcessed := messagesProcessed (stats b) + 1\<rparr>\<rparr> in
      case handleMessage_try c m b0 of
        (Inl e, b1) \<Rightarrow> (Inr (), countError (logTo (Log Error ''Error in message handler:'' (Some e)) b1))
      | (Inr u, b1) \<Rightarrow> (Inr (), b1))"

definition handleEvent ::
  "('sec, 'rl, 'mh, 'em) collaborators \<Rightarrow> event \<Rightarrow> (('sec, 'rl, 'mh, 'em) BotManager, unit) js" where
  "handleEvent c ev b =
     (case (case eventManager b of
              None \<Rightarrow> (Inl typeError, b)
            | Some em \<Rightarrow> (case handleEv c ev em of (r, em') \<Rightarrow> (r, b\<lparr>eventManager := Some em'\<rparr>))) of
        (Inl e, b1) \<Rightarrow> (Inr (), countError (logTo (Log Error ''Error in event handler:'' (Some e)) b1))
      | (Inr u, b1) \<Rightarrow> (Inr (), b1))"

definition handleReactionB ::
  "('sec, 'rl, 'mh, 'em) collaborators \<Rightarrow> reaction \<Rightarrow> (('sec, 'rl, 'mh, 'em) BotManager, unit) js" where
  "handleReactionB c r b =
     (case (case messageHandler b of
              None \<Rightarrow> (Inl typeError, b)
            | Some mh \<Rightarrow> (case handleReaction c r mh of (res, mh') \<Rightarrow> (res, b\<lparr>messageHandler := Some mh'\<rparr>))) of
        (Inl e, b1) \<Rightarrow> (Inr (), countError (logTo (Log Error ''Error in reaction handler:'' (Some e)) b1))
      | (Inr u, b1) \<Rightarrow> (Inr (), b1))"

subsection \<open>The listeners registered by setupMessageListeners\<close>

text \<open>
  Each listener wraps its handler in a second \<open>try\<close>/\<open>catch\<close>. \<open>listenerCatch\<close> is that
  wrapper; the outcome of a listener is what the event emitter of the transport sees.
\<close>

definition listenerCatch ::
  "string \<Rightarrow> (('sec, 'rl, 'mh, 'em) BotManager, unit) js \<Rightarrow> (('sec, 'rl, 'mh, 'em) BotManager, unit) js" where
  "listenerCatch what f b =
     (case f b of
        (Inl e, b1) \<Rightarrow> (Inr (), countError (logTo (Log Error what (Some e)) b1))
      | (Inr u, b1) \<Rightarrow> (Inr (), b1))"

definition onMessage ::
  "('sec, 'rl, 'mh, 'em) collaborators \<Rightarrow> message \<Rightarrow> (('sec, 'rl, 'mh, 'em) BotManager, unit) js" where
  "onMessage c m = listenerCatch ''Error handling message:'' (handleMessage c m)"

definition onEvent ::
  "('sec, 'rl, 'mh, 'em) collaborators \<Rightarrow> event \<Rightarrow> (('sec, 'rl, 'mh, 'em) BotManager, unit) js" where
  "onEvent c ev = listenerCatch ''Error handling event:'' (handleEvent c ev)"

definition onReaction ::
  "('sec, 'rl, 'mh, 'em) collaborators \<Rightarrow> reaction \<Rightarrow> (('sec, 'rl, 'mh, 'em) BotManager, unit) js" where
  "onReaction c r = listenerCatch ''Error handling reaction:'' (handleReactionB c r)"

subsection \<open>Life cycle: initialize, start, stop, isReady\<close>

text \<open>
  What the constructors and the \<open>initialize()\<close> methods of the collaborators do is outside
  the sources: \<open>init_env\<close> gives, for each, the constructed object and the outcome of its
  initialisation.
\<close>

record ('sec, 'rl, 'mh, 'em) init_env =
  secNew :: 'sec
  secInit :: "('sec, unit) js"
  rlNew :: 'rl
  fbNew :: FacebookAPI
  fbInit :: "(FacebookAPI, unit) js"
  cmInit :: "js_error option"
  emNew :: 'em
  emInit :: "('em, unit) js"
  mhNew :: 'mh

definition initialize_try ::
  "('sec, 'rl, 'mh, 'em) init_env \<Rightarrow> (('sec, 'rl, 'mh, 'em) BotManager, unit) js" where
  "initialize_try env b =
     (let b1 = logTo (Log Info ''Initializing BotManager...'' None) b in
      case secInit env (secNew env) of
        (Inl e, s) \<Rightarrow> (Inl e, b1\<lparr>securityManager := Some s\<rparr>)
      | (Inr u, s) \<Rightarrow>
         (let b2 = b1\<lparr>securityManager := Some s, rateLimiter := Some (rlNew env)\<rparr> in
          case fbInit env (fbNew env) of
            (Inl e, a) \<Rightarrow> (Inl e, b2\<lparr>facebookAPI := Some a\<rparr>)
          | (Inr u, a) \<Rightarrow>
             (let b3 = b2\<lparr>facebookAPI := Some a, commandManager := Some ()\<rparr> in
              case cmInit env of
                Some e \<Rightarrow> (Inl e, b3)
              | None \<Rightarrow>
                 (case emInit env (emNew env) of
                    (Inl e, em) \<Rightarrow> (Inl e, b3\<lparr>eventManager := Some em\<rparr>)
                  | (Inr u, em) \<Rightarrow>
                     (Inr (), logTo (Log Success ''BotManager initialized successfully'' None)
                        (b3\<lparr>eventManager := Some em, messageHandler := Some (mhNew env)\<rparr>))))))"

definition initialize ::
  "('sec, 'rl, 'mh, 'em) init_env \<Rightarrow> (('sec, 'rl, 'mh, 'em) BotManager, unit) js" where
  "initialize env b =
     (case initialize_try env b of
        (Inl e, b1) \<Rightarrow> (Inl e, logTo (Log Error ''Failed to initialize BotManager:'' (Some e)) b1)
      | (Inr u, b1) \<Rightarrow> (Inr (), b1))"

record start_env =
  connect :: "(FacebookAPI, unit) js"
  getBotInfo :: "(FacebookAPI, (string \<times> string) option) js"
  startNow :: nat

definition start_try ::
  "start_env \<Rightarrow> (('sec, 'rl, 'mh, 'em) BotManager, unit) js" where
  "start_try env b =
     (if isRunning b then (Inr (), logTo (Log Warning ''Bot is already running'' None) b)
      else
        (let b1 = logTo (Log Info ''Starting Enhanced SecretBot...'' None) b in
         case facebookAPI b1 of
           None \<Rightarrow> (Inl typeError, b1)
         | Some a \<Rightarrow>
            (case connect env a of
               (Inl e, a1) \<Rightarrow> (Inl e, b1\<lparr>facebookAPI := Some a1\<rparr>)
             | (Inr u, a1) \<Rightarrow>
                (case getBotInfo env a1 of
                   (Inl e, a2) \<Rightarrow> (Inl e, b1\<lparr>facebookAPI := Some a2\<rparr>)
                 | (Inr info, a2) \<Rightarrow>
                    (let b2 = b1\<lparr>facebookAPI := Some a2, botInfo := info\<rparr> in
                     case info of
                       None \<Rightarrow> (Inl typeError, b2)
                     | Some (name, ident) \<Rightarrow>
                        (Inr (),
                         logTo (Log Success ''Enhanced SecretBot started successfully'' None)
                           ((logTo (Log Info (''Bot connected as: '' @ name @ '' ('' @ ident @ '')'') None) b2)
                              \<lparr>listening := True, periodicTasks := True,
                               isRunning := True, startTime := startNow env\<rparr>)))))))"

definition start ::
  "start_env \<Rightarrow> (('sec, 'rl, 'mh, 'em) BotManager, unit) js" where
  "start env b =
     (case start_try env b of
        (Inl e, b1) \<Rightarrow> (Inl e, logTo (Log Error ''Failed to start bot:'' (Some e)) b1)
      | (Inr u, b1) \<Rightarrow> (Inr (), b1))"

definition stop_try ::
  "(FacebookAPI, unit) js \<Rightarrow> (('sec, 'rl, 'mh, 'em) BotManager, unit) js" where
  "stop_try disconnect b =
     (if \<not> isRunning b then (Inr (), logTo (Log Warning ''Bot is not running'' None) b)
      else
        (let b1 = (logTo (Log Info ''Stopping Enhanced SecretBot...'' None) b)\<lparr>periodicTasks := False\<rparr> in
         case facebookAPI b1 of
           None \<Rightarrow>
             (Inr (), logTo (Log Success ''Enhanced SecretBot stopped successfully'' None)
                        (b1\<lparr>isRunning := False\<rparr>))
         | Some a \<Rightarrow>
            (case disconnect a of
               (Inl e, a1) \<Rightarrow> (Inl e, b1\<lparr>facebookAPI := Some a1\<rparr>)
             | (Inr u, a1) \<Rightarrow>
                (Inr (), logTo (Log Success ''Enhanced SecretBot stopped successfully'' None)
                           (b1\<lparr>facebookAPI := Some a1, isRunning := False\<rparr>)))))"

definition stop ::
  "(FacebookAPI, unit) js \<Rightarrow> (('sec, 'rl, 'mh, 'em) BotManager, unit) js" where
  "stop disconnect b =
     (case stop_try disconnect b of
        (Inl e, b1) \<Rightarrow> (Inl e, logTo (Log Error ''Error stopping bot:'' (Some e)) b1)
      | (Inr u, b1) \<Rightarrow> (Inr (), b1))"

text \<open>
  \<open>isReady()\<close> is \<open>this.isRunning && this.facebookAPI && this.facebookAPI.isConnected()\<close>.
  JavaScript's \<open>&&\<close> returns the first falsy operand, or the last operand: the value is
  \<open>false\<close> when the bot is not running, \<open>null\<close> when it runs without a transport object
  (an object is always truthy), and the answer of \<open>isConnected()\<close> otherwise.
\<close>

datatype js_value = JBool bool | JNull

definition isReady :: "('sec, 'rl, 'mh, 'em) BotManager \<Rightarrow> js_value" where
  "isReady b =
     (if \<not> isRunning b then JBool False
      else case facebookAPI b of
             None \<Rightarrow> JNull
           | Some a \<Rightarrow> JBool (fbConnected a))"

text \<open>
  The states of the orchestrator: the constructed object, and whatever its methods and
  listeners make of it. The transport object changes its own connection state
  (\<open>reach_transport\<close>).
\<close>

inductive reachable :: "('sec, 'rl, 'mh, 'em) BotManager \<Rightarrow> bool" where
  reach_new: "reachable (newBotManager now)"
| reach_initialize: "reachable b \<Longrightarrow> reachable (snd (initialize ienv b))"
| reach_start: "reachable b \<Longrightarrow> reachable (snd (start senv b))"
| reach_stop: "reachable b \<Longrightarrow> reachable (snd (stop disconnect b))"
| reach_message: "reachable b \<Longrightarrow> reachable (snd (onMessage c m b))"
| reach_event: "reachable b \<Longrightarrow> reachable (snd (onEvent c ev b))"
| reach_reaction: "reachable b \<Longrightarrow> reachable (snd (onReaction c r b))"
| reach_transport: "reachable b \<Longrightarrow> facebookAPI b = Some a \<Longrightarrow> reachable (b\<lparr>facebookAPI := Some a'\<rparr>)"

section \<open>DatabaseManager: the cache operations (src/database/DatabaseManager.js)\<close>

text \<open>
  The redis client is an external collaborator: a key-value store with an expiry per key,
  whose commands reject with \<open>redisDown\<close> while the backend cannot be reached. The stored
  text is of an abstract type \<open>'j\<close>; \<open>JSON.stringify\<close> and \<open>JSON.parse\<close> are the two
  functions of a \<open>codec\<close>, each of which may throw (\<open>parse\<close> gives \<open>None\<close> for a text
  that denotes \<open>null\<close>).
\<close>

record 'j redis_client =
  kv :: "string \<rightharpoonup> ('j \<times> nat)"
  redisDown :: "js_error option"

record ('v, 'j) codec =
  stringify :: "'v \<Rightarrow> js_error + 'j"
  parse :: "'j \<Rightarrow> js_error + 'v option"

record 'j DatabaseManager =
  redis :: "'j redis_client option"
  dbLog :: "log_entry list"

definition dbLogTo :: "log_entry \<Rightarrow> 'j DatabaseManager \<Rightarrow> 'j DatabaseManager" where
  "dbLogTo l db = db\<lparr>dbLog := dbLog db @ [l]\<rparr>"

definition setEx :: "string \<Rightarrow> nat \<Rightarrow> 'j \<Rightarrow> ('j redis_client, string) js" where
  "setEx key expireSeconds text r =
     (case redisDown r of
        Some e \<Rightarrow> (Inl e, r)
      | None \<Rightarrow> (Inr ''OK'', r\<lparr>kv := (kv r)(key \<mapsto> (text, expireSeconds))\<rparr>))"

definition redisGet :: "string \<Rightarrow> ('j redis_client, 'j option) js" where
  "redisGet key r =
     (case redisDown r of
        Some e \<Rightarrow> (Inl e, r)
      | None \<Rightarrow> (Inr (map_option fst (kv r key)), r))"

text \<open>The body of the \<open>try\<close> block of \<open>cacheSet\<close>, with the client \<open>r\<close> known not to be null.\<close>

definition cacheSet_try ::
  "('v, 'j) codec \<Rightarrow> string \<Rightarrow> 'v \<Rightarrow> nat \<Rightarrow> 'j redis_client \<Rightarrow> ('j DatabaseManager, bool) js" where
  "cacheSet_try cd key val expireSeconds r db =
     (case stringify cd val of
        Inl e \<Rightarrow> (Inl e, db)
      | Inr text \<Rightarrow>
         (case setEx key expireSeconds text r of
            (Inl e, r1) \<Rightarrow> (Inl e, db\<lparr>redis := Some r1\<rparr>)
          | (Inr result, r1) \<Rightarrow> (Inr (result = ''OK''), db\<lparr>redis := Some r1\<rparr>)))"

definition cacheSet ::
  "('v, 'j) codec \<Rightarrow> string \<Rightarrow> 'v \<Rightarrow> nat \<Rightarrow> ('j DatabaseManager, bool) js" where
  "cacheSet cd key val expireSeconds db =
     (case redis db of
        None \<Rightarrow> (Inr False, dbLogTo (Log Warning ''Redis not available, skipping cache set'' None) db)
      | Some r \<Rightarrow>
         (case cacheSet_try cd key val expireSeconds r db of
            (Inl e, db1) \<Rightarrow> (Inr False, dbLogTo (Log Error (''Error setting cache for key '' @ key @ '':'') (Some e)) db1)
          | (Inr ok, db1) \<Rightarrow> (Inr ok, db1)))"

definition cacheGet_try ::
  "('v, 'j) codec \<Rightarrow> string \<Rightarrow> 'j redis_client \<Rightarrow> ('j DatabaseManager, 'v option) js" where
  "cacheGet_try cd key r db =
     (case redisGet key r of
        (Inl e, r1) \<Rightarrow> (Inl e, db\<lparr>redis := Some r1\<rparr>)
      | (Inr None, r1) \<Rightarrow> (Inr None, db\<lparr>redis := Some r1\<rparr>)
      | (Inr (Some text), r1) \<Rightarrow>
         (case parse cd text of
            Inl e \<Rightarrow> (Inl e, db\<lparr>redis := Some r1\<rparr>)
          | Inr v \<Rightarrow> (Inr v, db\<lparr>redis := Some r1\<rparr>)))"

definition cacheGet ::
  "('v, 'j) codec \<Rightarrow> string \<Rightarrow> ('j DatabaseManager, 'v option) js" where
  "cacheGet cd key db =
     (case redis db of
        None \<Rightarrow> (Inr None, dbLogTo (Log Warning ''Redis not available, skipping cache get'' None) db)
      | Some r \<Rightarrow>
         (case cacheGet_try cd key r db of
            (Inl e, db1) \<Rightarrow> (Inr None, dbLogTo (Log Error (''Error getting cache for key '' @ key @ '':'') (Some e)) db1)
          | (Inr v, db1) \<Rightarrow> (Inr v, db1)))"

section \<open>The ai command (the command module that follows the compose file in docker-compose.yml)\<close>

subsection \<open>Strings\<close>

text \<open>\<open>Array.prototype.join\<close> on the arguments of the command.\<close>

fun join :: "string \<Rightarrow> string list \<Rightarrow> string" where
  "join sep [] = []"
| "join sep [x] = x"
| "join sep (x # y # ys) = x @ sep @ join sep (y # ys)"

subsection \<open>Data\<close>

record turn =
  role :: string
  content :: string
  timestamp :: nat

text \<open>
  The value of \<open>conversation.model\<close>: the name of a model, or what \<open>this.models[name]\<close>
  gives for a name that is no entry of \<open>models\<close> but a property every object inherits
  from \<open>Object.prototype\<close> (\<open>constructor\<close>, \<open>__proto__\<close>, \<open>toString\<close>, ...): a function
  or an object, which \<open>switchModel\<close> stores as it does a name.
\<close>

datatype js_model = ModelName string | Inherited string

record conversation =
  convId :: string
  convUserID :: string
  convThreadID :: string
  model :: js_model
  systemPrompt :: string
  messages :: "turn list"
  createdAt :: nat
  lastUsed :: nat

text \<open>An entry of \<open>global.GoatBot.onReply\<close>, keyed by the identifier of the message sent.\<close>

record pendingReply =
  commandName :: string
  pendingMessageID :: string
  author :: string
  conversationId :: string

record chat_request =
  reqModel :: js_model
  reqMessages :: "(string \<times> string) list"

record ai_config =
  apiKey :: "string option"
  configModel :: "string option"

text \<open>
  The collaborators of the command: the configuration (\<open>getAIConfig\<close> throws before the
  configuration manager is initialised), the constructor of the OpenAI client (the error it
  throws for a key, if any), the typing indicator of the transport (likewise), the
  language model (its error, or the text of the first choice), the callback of
  \<open>message.reply\<close> (\<open>None\<close> is \<open>err\<close>, otherwise \<open>info.messageID\<close>), the clock, and the
  two methods of the runtime's strings that the command calls, \<open>String.prototype.trim\<close> and
  \<open>String.prototype.toLowerCase\<close>, taken as they are.
\<close>

record ai_env =
  getAIConfig :: "js_error + ai_config"
  openaiClient :: "string option \<Rightarrow> js_error option"
  typingIndicator :: "string \<Rightarrow> js_error option"
  createCompletion :: "chat_request \<Rightarrow> js_error + string"
  replySent :: "string \<Rightarrow> string option"
  clock :: nat
  strTrim :: "string \<Rightarrow> string"
  strLower :: "string \<Rightarrow> string"

text \<open>
  What the command can change. A conversation is an object: \<open>heap\<close> gives the object
  behind a reference, \<open>nextRef\<close> is the next reference to hand out, and the
  \<open>conversations\<close> map holds references, so that a handler which waits for the model keeps
  its object also when the map has dropped or replaced the entry meanwhile. Then the
  database manager, the registry of pending replies, and what the command asked of the
  transport (\<open>outbox\<close>: the texts given to \<open>message.reply\<close>; \<open>typingSent\<close>), of the
  language model (\<open>requests\<close>) and of the logger.
\<close>

record 'j ai_world =
  conversations :: "string \<rightharpoonup> nat"
  heap :: "nat \<Rightarrow> conversation"
  nextRef :: nat
  database :: "'j DatabaseManager"
  onReplyRegistry :: "string \<rightharpoonup> pendingReply"
  outbox :: "string list"
  typingSent :: "string list"
  requests :: "chat_request list"
  aiLog :: "log_entry list"

text \<open>The session stored under a key: the object the map refers to.\<close>

definition sessionOf :: "'j ai_world \<Rightarrow> string \<Rightarrow> conversation option" where
  "sessionOf w cid = map_option (heap w) (conversations w cid)"

text \<open>A new object.\<close>

definition allocate :: "conversation \<Rightarrow> 'j ai_world \<Rightarrow> nat \<times> 'j ai_world" where
  "allocate c w = (nextRef w, w\<lparr>heap := (heap w)(nextRef w := c), nextRef := Suc (nextRef w)\<rparr>)"

definition models :: "(string \<times> string) list" where
  "models = [(''gpt-4'', ''gpt-4''), (''gpt-3.5-turbo'', ''gpt-3.5-turbo''),
             (''gpt-3.5'', ''gpt-3.5-turbo''), (''gpt-4-turbo'', ''gpt-4-turbo-preview'')]"

text \<open>The properties that the object \<open>models\<close> inherits from \<open>Object.prototype\<close>.\<close>

definition objectPrototype :: "string list" where
  "objectPrototype =
     [''constructor'', ''__defineGetter__'', ''__defineSetter__'', ''hasOwnProperty'',
      ''__lookupGetter__'', ''__lookupSetter__'', ''isPrototypeOf'', ''propertyIsEnumerable'',
      ''toString'', ''valueOf'', ''__proto__'', ''toLocaleString'']"

text \<open>\<open>this.models[name]\<close>: \<open>None\<close> is \<open>undefined\<close>; every other value is truthy.\<close>

definition modelsGet :: "string \<Rightarrow> js_model option" where
  "modelsGet name =
     (case map_of models name of
        Some m \<Rightarrow> Some (ModelName m)
      | None \<Rightarrow> if name \<in> set objectPrototype then Some (Inherited name) else None)"

text \<open>The text of a model value inside a template string.\<close>

definition modelText :: "js_model \<Rightarrow> string" where
  "modelText m =
     (case m of
        ModelName n \<Rightarrow> n
      | Inherited p \<Rightarrow>
          if p = ''__proto__'' then ''[object Object]''
          else ''function '' @ (if p = ''constructor'' then ''Object'' else p) @ ''() { [native code] }'')"

text \<open>The texts of the replies, each without its emoji and cut to its first sentence.\<close>

definition msgNoKey :: string where
  "msgNoKey = ''OpenAI API key not configured. Please contact the administrator.''"
definition msgNoInput :: string where
  "msgNoInput = ''Please provide a message to chat with AI.''"
definition msgNoReplyInput :: string where
  "msgNoReplyInput = ''Please provide a message to continue the conversation.''"
definition msgGeneric :: string where
  "msgGeneric = ''An error occurred while processing your request.''"
definition msgQuota :: string where
  "msgQuota = ''OpenAI API quota exceeded. Please try again later.''"
definition msgRateLimit :: string where
  "msgRateLimit = ''Rate limit exceeded. Please wait a moment and try again.''"
definition msgInvalidKey :: string where
  "msgInvalidKey = ''Invalid OpenAI API key. Please contact the administrator.''"
definition msgReplyError :: string where
  "msgReplyError = ''An error occurred while processing your message.''"
definition msgNotFound :: string where
  "msgNotFound = ''Conversation not found. Please start a new conversation with the ai command.''"
definition msgCleared :: string where
  "msgCleared = ''Conversation history cleared successfully!''"
definition msgNoActive :: string where
  "msgNoActive = ''No active conversation found. Start a new conversation first.''"
definition msgNoPrompt :: string where
  "msgNoPrompt = ''Please provide a system prompt.''"
definition msgPromptUpdated :: string where
  "msgPromptUpdated = ''System prompt updated successfully!''"
definition msgHelp :: string where
  "msgHelp = ''AI Command Help''"
definition defaultSystemPrompt :: string where
  "defaultSystemPrompt = ''You are a helpful, friendly, and knowledgeable AI assistant. Provide clear, concise, and helpful responses.''"

definition reply :: "string \<Rightarrow> 'j ai_world \<Rightarrow> 'j ai_world" where
  "reply text w = w\<lparr>outbox := outbox w @ [text]\<rparr>"

definition aiLogTo :: "log_entry \<Rightarrow> 'j ai_world \<Rightarrow> 'j ai_world" where
  "aiLogTo l w = w\<lparr>aiLog := aiLog w @ [l]\<rparr>"

definition falsy :: "string option \<Rightarrow> bool" where
  "falsy v = (case v of None \<Rightarrow> True | Some s \<Rightarrow> s = [])"

subsection \<open>Helper methods\<close>

definition clearConversation :: "string \<Rightarrow> 'j ai_world \<Rightarrow> 'j ai_world" where
  "clearConversation cid w = reply msgCleared (w\<lparr>conversations := (conversations w)(cid := None)\<rparr>)"

text \<open>\<open>modelName\<close> is \<open>args[1]\<close>, \<open>undefined\<close> when there is no second argument.\<close>

definition switchModel :: "ai_env \<Rightarrow> string option \<Rightarrow> string \<Rightarrow> 'j ai_world \<Rightarrow> 'j ai_world" where
  "switchModel env modelName cid w =
     (if falsy modelName \<or> modelsGet (strLower env (the modelName)) = None then
        reply (''Available models: '' @ join '', '' (map fst models)) w
      else
        (case conversations w cid of
           Some r \<Rightarrow>
             (let m = the (modelsGet (strLower env (the modelName))) in
              reply (''Model switched to: '' @ modelText m)
                (w\<lparr>heap := (heap w)(r := (heap w r)\<lparr>model := m\<rparr>)\<rparr>))
         | None \<Rightarrow> reply msgNoActive w))"

definition setSystemPrompt :: "string \<Rightarrow> string \<Rightarrow> 'j ai_world \<Rightarrow> 'j ai_world" where
  "setSystemPrompt prompt cid w =
     (if prompt = [] then reply msgNoPrompt w
      else
        (case conversations w cid of
           Some r \<Rightarrow> reply msgPromptUpdated (w\<lparr>heap := (heap w)(r := (heap w r)\<lparr>systemPrompt := prompt\<rparr>)\<rparr>)
         | None \<Rightarrow> reply msgNoActive w))"

definition showHelp :: "'j ai_world \<Rightarrow> 'j ai_world" where
  "showHelp w = reply msgHelp w"

subsection \<open>Appending turns\<close>

text \<open>\<open>xs.slice(-n)\<close>: the last \<open>n\<close> elements, all of them when there are fewer.\<close>

definition sliceLast :: "nat \<Rightarrow> 'a list \<Rightarrow> 'a list" where
  "sliceLast n xs = drop (length xs - n) xs"

definition pushTurn :: "string \<Rightarrow> string \<Rightarrow> nat \<Rightarrow> conversation \<Rightarrow> conversation" where
  "pushTurn r text now c = c\<lparr>messages := messages c @ [\<lparr>role = r, content = text, timestamp = now\<rparr>]\<rparr>"

text \<open>The user's turn: the push, then the \<open>if (conversation.messages.length > 20)\<close> that follows it.\<close>

definition appendUserTurn :: "string \<Rightarrow> nat \<Rightarrow> conversation \<Rightarrow> conversation" where
  "appendUserTurn text now c =
     (let c1 = pushTurn ''user'' text now c in
      if length (messages c1) > 20 then c1\<lparr>messages := sliceLast 10 (messages c1)\<rparr> else c1)"

text \<open>The assistant's turn: the push alone; no check of the length follows it.\<close>

definition appendAssistantTurn :: "string \<Rightarrow> nat \<Rightarrow> conversation \<Rightarrow> conversation" where
  "appendAssistantTurn text now c = pushTurn ''assistant'' text now c"

definition newConversation :: "ai_config \<Rightarrow> string \<Rightarrow> string \<Rightarrow> string \<Rightarrow> nat \<Rightarrow> conversation" where
  "newConversation cfg cid uid tid now =
     \<lparr>convId = cid, convUserID = uid, convThreadID = tid,
      model = ModelName (if falsy (configModel cfg) then ''gpt-3.5-turbo'' else the (configModel cfg)),
      systemPrompt = defaultSystemPrompt, messages = [], createdAt = now, lastUsed = now\<rparr>"

definition chatRequest :: "conversation \<Rightarrow> chat_request" where
  "chatRequest c =
     \<lparr>reqModel = model c,
      reqMessages = (''system'', systemPrompt c) # map (\<lambda>t. (role t, content t)) (messages c)\<rparr>"

definition cacheKey :: "string \<Rightarrow> string" where
  "cacheKey cid = ''ai_conversation_'' @ cid"

subsection \<open>The exchange with the language model\<close>

text \<open>
  \<open>onStart\<close> and \<open>onReply\<close> both spell the exchange out, on the conversation object \<open>r\<close>
  they hold. It has two parts, with the \<open>await\<close> of the model's answer between them;
  while a handler waits, other handlers run, also on the same object.

  \<open>exchangeRequest\<close> is the part before the \<open>await\<close>: from "Update last used time" to the
  call of \<open>openai.chat.completions.create\<close>, whose argument it returns.
\<close>

definition exchangeRequest :: "ai_env \<Rightarrow> string \<Rightarrow> nat \<Rightarrow> 'j ai_world \<Rightarrow> chat_request \<times> 'j ai_world" where
  "exchangeRequest env userInput r w =
     (let c1 = appendUserTurn userInput (clock env) ((heap w r)\<lparr>lastUsed := clock env\<rparr>)
      in (chatRequest c1, w\<lparr>heap := (heap w)(r := c1), requests := requests w @ [chatRequest c1]\<rparr>))"

text \<open>
  \<open>exchangeComplete\<close> is the part after the \<open>await\<close>, in the state the other handlers
  have left: \<open>outcome\<close> is the error thrown by the call or by the reading of the first
  choice, or the text of the answer. \<open>fmt\<close> is the text of the reply around the answer.
\<close>

definition exchangeComplete ::
  "ai_env \<Rightarrow> (conversation, 'j) codec \<Rightarrow> message \<Rightarrow> string \<Rightarrow> (string \<Rightarrow> string) \<Rightarrow> nat \<Rightarrow>
   js_error + string \<Rightarrow> ('j ai_world, unit) js" where
  "exchangeComplete env cd ev cid fmt r outcome w =
     (case outcome of
        Inl e \<Rightarrow> (Inl e, w)
      | Inr aiResponse \<Rightarrow>
         (let c2 = appendAssistantTurn aiResponse (clock env) (heap w r);
              w2 = w\<lparr>heap := (heap w)(r := c2)\<rparr>
          in case cacheSet cd (cacheKey cid) c2 3600 (database w2) of
               (Inl e, db1) \<Rightarrow> (Inl e, w2\<lparr>database := db1\<rparr>)
             | (Inr ok, db1) \<Rightarrow>
                (let w3 = reply (fmt aiResponse) (w2\<lparr>database := db1\<rparr>)
                 in case replySent env (fmt aiResponse) of
                      None \<Rightarrow> (Inr (), w3)
                    | Some mid \<Rightarrow>
                       (Inr (), w3\<lparr>onReplyRegistry := (onReplyRegistry w3)(mid \<mapsto>
                          \<lparr>commandName = ''ai'', pendingMessageID = mid,
                           author = senderID ev, conversationId = cid\<rparr>)\<rparr>))))"

text \<open>An exchange during which no other handler runs: the model answers the request at once.\<close>

definition chatExchange ::
  "ai_env \<Rightarrow> (conversation, 'j) codec \<Rightarrow> message \<Rightarrow> string \<Rightarrow> string \<Rightarrow> (string \<Rightarrow> string) \<Rightarrow>
   nat \<Rightarrow> ('j ai_world, unit) js" where
  "chatExchange env cd ev cid userInput fmt r w =
     (case exchangeRequest env userInput r w of
        (req, w1) \<Rightarrow> exchangeComplete env cd ev cid fmt r (createCompletion env req) w1)"

text \<open>The reply around the model's answer, on one line and without emoji.\<close>

definition formatStart :: "string \<Rightarrow> string" where
  "formatStart r = ''**AI Response** '' @ r @ '' *Reply to continue the conversation* *Type ai clear to reset*''"

definition formatReply :: "string \<Rightarrow> string" where
  "formatReply r = ''**AI Response** '' @ r @ '' *Reply to continue the conversation*''"

text \<open>
  Where a handler stands when it gives up control. It has returned; or it waits for the
  typing indicator, holding the configuration and the user's input; or for the cache,
  holding the input (\<open>AwaitingCache\<close> carries what the cache will hand over); or for the
  model's answer to the request, holding the conversation object. While it waits, other
  handlers run. The waits for the cache write and for the reply, which come after the
  last change of a conversation, are taken together with the part before them.
\<close>

datatype suspended =
    Finished
  | AwaitingTyping ai_config string
  | AwaitingCache string "conversation option"
  | AwaitingModel nat chat_request

subsection \<open>onStart\<close>

text \<open>The key of the sender's session in a thread.\<close>

definition conversationKey :: "message \<Rightarrow> string" where
  "conversationKey ev = threadID ev @ ''_'' @ senderID ev"

text \<open>
  The body of the \<open>try\<close> block of \<open>onStart\<close>, up to the call of the typing indicator.
  \<open>sub\<close> is the value the \<open>switch\<close> looks at, when \<open>args[0]\<close> is truthy.
\<close>

definition onStart_begin_try ::
  "ai_env \<Rightarrow> string list \<Rightarrow> message \<Rightarrow> ('j ai_world, suspended) js" where
  "onStart_begin_try env args ev w =
     (case getAIConfig env of
        Inl e \<Rightarrow> (Inl e, w)
      | Inr cfg \<Rightarrow>
         if falsy (apiKey cfg) then (Inr Finished, reply msgNoKey w)
         else
           (case openaiClient env (apiKey cfg) of
              Some e \<Rightarrow> (Inl e, w)
            | None \<Rightarrow>
               (let cid = conversationKey ev;
                    sub = (if args \<noteq> [] \<and> hd args \<noteq> [] then Some (strLower env (hd args)) else None)
                in if sub = Some ''clear'' then (Inr Finished, clearConversation cid w)
                   else if sub = Some ''model'' then
                     (Inr Finished, switchModel env (if length args > 1 then Some (args ! 1) else None) cid w)
                   else if sub = Some ''system'' then (Inr Finished, setSystemPrompt (join '' '' (tl args)) cid w)
                   else if sub = Some ''help'' then (Inr Finished, showHelp w)
                   else
                     (let userInput = strTrim env (join '' '' args) in
                      if userInput = [] then (Inr Finished, reply msgNoInput w)
                      else (Inr (AwaitingTyping cfg userInput),
                            w\<lparr>typingSent := typingSent w @ [threadID ev]\<rparr>)))))"

text \<open>
  The \<open>try\<close> block from the return of the typing indicator (\<open>outcome\<close>: the error it threw,
  if any) to the call of the model: "Get or create conversation", the user's turn, the cut.
\<close>

definition onStart_typed_try ::
  "ai_env \<Rightarrow> ai_config \<Rightarrow> string \<Rightarrow> message \<Rightarrow> js_error option \<Rightarrow> ('j ai_world, suspended) js" where
  "onStart_typed_try env cfg userInput ev outcome w =
     (case outcome of
        Some e \<Rightarrow> (Inl e, w)
      | None \<Rightarrow>
         (case (case conversations w (conversationKey ev) of
                  Some r0 \<Rightarrow> (r0, w)
                | None \<Rightarrow>
                   (case allocate (newConversation cfg (conversationKey ev) (senderID ev) (threadID ev) (clock env)) w of
                      (r0, wa) \<Rightarrow> (r0, wa\<lparr>conversations := (conversations wa)(conversationKey ev \<mapsto> r0)\<rparr>))) of
            (r, w2) \<Rightarrow>
              (case exchangeRequest env userInput r w2 of
                 (req, w3) \<Rightarrow> (Inr (AwaitingModel r req), w3))))"

definition errorMessage :: "js_error \<Rightarrow> string" where
  "errorMessage e =
     (if err_code e = Some ''insufficient_quota'' then msgQuota
      else if err_code e = Some ''rate_limit_exceeded'' then msgRateLimit
      else if err_code e = Some ''invalid_api_key'' then msgInvalidKey
      else msgGeneric)"

text \<open>The \<open>catch\<close> block of \<open>onStart\<close>, and a part of the \<open>try\<close> block under it.\<close>

definition onStart_catch :: "js_error \<Rightarrow> 'j ai_world \<Rightarrow> 'j ai_world" where
  "onStart_catch e w = reply (errorMessage e) (aiLogTo (Log Error ''AI command error:'' (Some e)) w)"

definition onStart_guard :: "(js_error + suspended) \<times> 'j ai_world \<Rightarrow> suspended \<times> 'j ai_world" where
  "onStart_guard res =
     (case res of
        (Inl e, w1) \<Rightarrow> (Finished, onStart_catch e w1)
      | (Inr s, w1) \<Rightarrow> (s, w1))"

text \<open>The three parts of \<open>onStart\<close>, each from the state the other handlers have left.\<close>

definition onStart_begin :: "ai_env \<Rightarrow> string list \<Rightarrow> message \<Rightarrow> 'j ai_world \<Rightarrow> suspended \<times> 'j ai_world" where
  "onStart_begin env args ev w = onStart_guard (onStart_begin_try env args ev w)"

definition onStart_typed ::
  "ai_env \<Rightarrow> ai_config \<Rightarrow> string \<Rightarrow> message \<Rightarrow> js_error option \<Rightarrow> 'j ai_world \<Rightarrow> suspended \<times> 'j ai_world" where
  "onStart_typed env cfg userInput ev outcome w = onStart_guard (onStart_typed_try env cfg userInput ev outcome w)"

text \<open>From the model's answer on; \<open>r\<close> is the conversation object the handler holds.\<close>

definition onStart_resume ::
  "ai_env \<Rightarrow> (conversation, 'j) codec \<Rightarrow> message \<Rightarrow> nat \<Rightarrow> js_error + string \<Rightarrow> 'j ai_world \<Rightarrow> 'j ai_world" where
  "onStart_resume env cd ev r outcome w =
     (case exchangeComplete env cd ev (conversationKey ev) formatStart r outcome w of
        (Inl e, w1) \<Rightarrow> onStart_catch e w1
      | (Inr u, w1) \<Rightarrow>
          aiLogTo (Log Command (''AI command used by '' @ senderID ev @ '' in '' @ threadID ev
                                  @ '' with model '' @ modelText (model (heap w1 r))) None) w1)"

text \<open>
  \<open>onStart\<close> when no other handler runs while it waits: up to the call of the model, and
  as a whole. It never throws.
\<close>

definition onStart_request ::
  "ai_env \<Rightarrow> string list \<Rightarrow> message \<Rightarrow> 'j ai_world \<Rightarrow> suspended \<times> 'j ai_world" where
  "onStart_request env args ev w =
     (case onStart_begin env args ev w of
        (AwaitingTyping cfg userInput, w1) \<Rightarrow>
          onStart_typed env cfg userInput ev (typingIndicator env (threadID ev)) w1
      | (s, w1) \<Rightarrow> (s, w1))"

definition onStart ::
  "ai_env \<Rightarrow> (conversation, 'j) codec \<Rightarrow> string list \<Rightarrow> message \<Rightarrow> ('j ai_world, unit) js" where
  "onStart env cd args ev w =
     (case onStart_request env args ev w of
        (AwaitingModel r req, w1) \<Rightarrow> (Inr (), onStart_resume env cd ev r (createCompletion env req) w1)
      | (s, w1) \<Rightarrow> (Inr (), w1))"

subsection \<open>onReply\<close>

text \<open>
  The body of the \<open>try\<close> block of \<open>onReply\<close>, up to the call of the typing indicator;
  \<open>rep\<close> is the registered entry \<open>Reply\<close>.
\<close>

definition onReply_begin_try ::
  "ai_env \<Rightarrow> message \<Rightarrow> pendingReply \<Rightarrow> ('j ai_world, suspended) js" where
  "onReply_begin_try env ev rep w =
     (if senderID ev \<noteq> author rep then (Inr Finished, w)
      else
        (let userInput = strTrim env (body ev) in
         if userInput = [] then (Inr Finished, reply msgNoReplyInput w)
         else if strLower env userInput = ''clear'' then (Inr Finished, clearConversation (conversationId rep) w)
         else
           (case getAIConfig env of
              Inl e \<Rightarrow> (Inl e, w)
            | Inr cfg \<Rightarrow>
               (case openaiClient env (apiKey cfg) of
                  Some e \<Rightarrow> (Inl e, w)
                | None \<Rightarrow>
                   (Inr (AwaitingTyping cfg userInput), w\<lparr>typingSent := typingSent w @ [threadID ev]\<rparr>)))))"

text \<open>
  From the return of the typing indicator: the lookup in the \<open>conversations\<close> map, and
  with the session found there the user's turn, the cut and the call of the model; on a
  miss, the call of the cache.
\<close>

definition onReply_typed_try ::
  "ai_env \<Rightarrow> (conversation, 'j) codec \<Rightarrow> message \<Rightarrow> pendingReply \<Rightarrow> string \<Rightarrow> js_error option \<Rightarrow>
   ('j ai_world, suspended) js" where
  "onReply_typed_try env cd ev rep userInput outcome w =
     (case outcome of
        Some e \<Rightarrow> (Inl e, w)
      | None \<Rightarrow>
         (case conversations w (conversationId rep) of
            Some r \<Rightarrow>
              (case exchangeRequest env userInput r w of
                 (req, w2) \<Rightarrow> (Inr (AwaitingModel r req), w2))
          | None \<Rightarrow>
              (case cacheGet cd (cacheKey (conversationId rep)) (database w) of
                 (Inl e, db1) \<Rightarrow> (Inl e, w\<lparr>database := db1\<rparr>)
               | (Inr found, db1) \<Rightarrow> (Inr (AwaitingCache userInput found), w\<lparr>database := db1\<rparr>))))"

text \<open>
  From the return of the cache: its session, if any, becomes a new object and the entry
  of the map, and the handler goes on with it; without one it answers "not found".
\<close>

definition onReply_cached_try ::
  "ai_env \<Rightarrow> message \<Rightarrow> pendingReply \<Rightarrow> string \<Rightarrow> conversation option \<Rightarrow> ('j ai_world, suspended) js" where
  "onReply_cached_try env ev rep userInput found w =
     (case found of
        None \<Rightarrow> (Inr Finished, reply msgNotFound w)
      | Some c \<Rightarrow>
         (case allocate c w of
            (r, wa) \<Rightarrow>
              (case exchangeRequest env userInput r
                      (wa\<lparr>conversations := (conversations wa)(conversationId rep \<mapsto> r)\<rparr>) of
                 (req, w2) \<Rightarrow> (Inr (AwaitingModel r req), w2))))"

text \<open>The \<open>catch\<close> block of \<open>onReply\<close>, and a part of the \<open>try\<close> block under it.\<close>

definition onReply_catch :: "js_error \<Rightarrow> 'j ai_world \<Rightarrow> 'j ai_world" where
  "onReply_catch e w = reply msgReplyError (aiLogTo (Log Error ''AI reply error:'' (Some e)) w)"

definition onReply_guard :: "(js_error + suspended) \<times> 'j ai_world \<Rightarrow> suspended \<times> 'j ai_world" where
  "onReply_guard res =
     (case res of
        (Inl e, w1) \<Rightarrow> (Finished, onReply_catch e w1)
      | (Inr s, w1) \<Rightarrow> (s, w1))"

text \<open>The four parts of \<open>onReply\<close>, each from the state the other handlers have left.\<close>

definition onReply_begin :: "ai_env \<Rightarrow> message \<Rightarrow> pendingReply \<Rightarrow> 'j ai_world \<Rightarrow> suspended \<times> 'j ai_world" where
  "onReply_begin env ev rep w = onReply_guard (onReply_begin_try env ev rep w)"

definition onReply_typed ::
  "ai_env \<Rightarrow> (conversation, 'j) codec \<Rightarrow> message \<Rightarrow> pendingReply \<Rightarrow> string \<Rightarrow> js_error option \<Rightarrow>
   'j ai_world \<Rightarrow> suspended \<times> 'j ai_world" where
  "onReply_typed env cd ev rep userInput outcome w =
     onReply_guard (onReply_typed_try env cd ev rep userInput outcome w)"

definition onReply_cached ::
  "ai_env \<Rightarrow> message \<Rightarrow> pendingReply \<Rightarrow> string \<Rightarrow> conversation option \<Rightarrow>
   'j ai_world \<Rightarrow> suspended \<times> 'j ai_world" where
  "onReply_cached env ev rep userInput found w =
     onReply_guard (onReply_cached_try env ev rep userInput found w)"

definition onReply_resume ::
  "ai_env \<Rightarrow> (conversation, 'j) codec \<Rightarrow> message \<Rightarrow> pendingReply \<Rightarrow> nat \<Rightarrow> js_error + string \<Rightarrow>
   'j ai_world \<Rightarrow> 'j ai_world" where
  "onReply_resume env cd ev rep r outcome w =
     (case exchangeComplete env cd ev (conversationId rep) formatReply r outcome w of
        (Inl e, w1) \<Rightarrow> onReply_catch e w1
      | (Inr u, w1) \<Rightarrow> w1)"

text \<open>
  \<open>onReply\<close> when no other handler runs while it waits: up to the call of the model, and
  as a whole. It never throws.
\<close>

definition onReply_request ::
  "ai_env \<Rightarrow> (conversation, 'j) codec \<Rightarrow> message \<Rightarrow> pendingReply \<Rightarrow> 'j ai_world \<Rightarrow> suspended \<times> 'j ai_world" where
  "onReply_request env cd ev rep w =
     (case onReply_begin env ev rep w of
        (AwaitingTyping cfg userInput, w1) \<Rightarrow>
          (case onReply_typed env cd ev rep userInput (typingIndicator env (threadID ev)) w1 of
             (AwaitingCache input found, w2) \<Rightarrow> onReply_cached env ev rep input found w2
           | (s, w2) \<Rightarrow> (s, w2))
      | (s, w1) \<Rightarrow> (s, w1))"

definition onReply ::
  "ai_env \<Rightarrow> (conversation, 'j) codec \<Rightarrow> message \<Rightarrow> pendingReply \<Rightarrow> ('j ai_world, unit) js" where
  "onReply env cd ev rep w =
     (case onReply_request env cd ev rep w of
        (AwaitingModel r req, w1) \<Rightarrow> (Inr (), onReply_resume env cd ev rep r (createCompletion env req) w1)
      | (s, w1) \<Rightarrow> (Inr (), w1))"

section \<open>RateLimiter\<close>

text \<open>
  Modelled from the spec: \<open>src/middleware/RateLimiter.js\<close> is not part of the sources (the
  manager only calls its \<open>checkLimit\<close>). Section 4.1: the limiter is constructed with
  \<open>windowSize\<close> and \<open>maxEvents\<close> and holds, per identity, the time-ordered timestamps of the
  admitted events. Time is in milliseconds; \<open>now\<close> is the reading of the clock at the call.
\<close>

record RateLimiter =
  windowSize :: int
  maxEvents :: nat
  windows :: "string \<rightharpoonup> int list"

text \<open>Modelled from the spec: the timestamps older than \<open>now - windowSize\<close> are purged.\<close>

definition purge :: "int \<Rightarrow> int \<Rightarrow> int list \<Rightarrow> int list" where
  "purge wsize now ts = filter (\<lambda>t. \<not> t < now - wsize) ts"

definition rateWindow :: "RateLimiter \<Rightarrow> string \<Rightarrow> int list" where
  "rateWindow rl identity = (case windows rl identity of None \<Rightarrow> [] | Some ts \<Rightarrow> ts)"

text \<open>
  Modelled from the spec: "purge timestamps in the identity's RateWindow older than
  \<open>now - windowSize\<close>; if the remaining count is \<open>< maxEvents\<close>, append \<open>now\<close> and return
  admitted; otherwise return rejected without mutating state."
\<close>

definition Admit :: "string \<Rightarrow> int \<Rightarrow> RateLimiter \<Rightarrow> bool \<times> RateLimiter" where
  "Admit identity now rl =
     (let remaining = purge (windowSize rl) now (rateWindow rl identity) in
      if length remaining < maxEvents rl
      then (True, rl\<lparr>windows := (windows rl)(identity \<mapsto> remaining @ [now])\<rparr>)
      else (False, rl))"

text \<open>
  A run of the limiter over the calls \<open>(identity, now)\<close> in the order they are made: the
  events it admits.
\<close>

fun admitted :: "RateLimiter \<Rightarrow> (string \<times> int) list \<Rightarrow> (string \<times> int) list" where
  "admitted rl [] = []"
| "admitted rl ((identity, now) # calls) =
     (case Admit identity now rl of
        (ok, rl1) \<Rightarrow> (if ok then [(identity, now)] else []) @ admitted rl1 calls)"

text \<open>The events of \<open>identity\<close> among \<open>evs\<close> whose time is in the window \<open>[a, a + wsize]\<close>.\<close>

definition withinWindow :: "string \<Rightarrow> int \<Rightarrow> int \<Rightarrow> (string \<times> int) list \<Rightarrow> (string \<times> int) list" where
  "withinWindow identity a wsize evs =
     filter (\<lambda>p. fst p = identity \<and> a \<le> snd p \<and> snd p \<le> a + wsize) evs"

text \<open>
  What links the stored windows to the events admitted so far (\<open>hist\<close>) when the clock
  has reached \<open>T\<close>: above \<open>T - windowSize\<close> the window of an identity holds exactly its
  admitted events, and no window of time holds more than \<open>maxEvents\<close> of them.
\<close>

definition timesOf :: "string \<Rightarrow> (string \<times> int) list \<Rightarrow> int list" where
  "timesOf identity evs = map snd (filter (\<lambda>p. fst p = identity) evs)"

definition limiterInv :: "RateLimiter \<Rightarrow> (string \<times> int) list \<Rightarrow> int \<Rightarrow> bool" where
  "limiterInv rl hist T =
     ((\<forall>i x. T - windowSize rl \<le> x \<longrightarrow>
          filter (\<lambda>t. x \<le> t) (timesOf i hist) = filter (\<lambda>t. x \<le> t) (rateWindow rl i))
      \<and> (\<forall>i a. length (withinWindow i a (windowSize rl) hist) \<le> maxEvents rl))"

section \<open>Concrete inputs\<close>

text \<open>
  A small instance of the collaborators: the security check denies the sender
  \<open>blocked\<close>, the rate limiter rejects the sender \<open>flood\<close>, and the handlers throw on
  \<open>boom\<close>; a handled message is answered by a send, recorded in the handler's state.
\<close>

definition boomError :: js_error where
  "boomError = JsError None ''boom''"

definition demoCollab :: "(nat, nat, string list, nat) collaborators" where
  "demoCollab =
     \<lparr>checkMessage = (\<lambda>m n. (Inr (senderID m \<noteq> ''blocked''), Suc n)),
      checkLimit = (\<lambda>i n. (Inr (i \<noteq> ''flood''), Suc n)),
      handle = (\<lambda>m sent. if body m = ''boom'' then (Inl boomError, sent) else (Inr (), sent @ [body m])),
      handleReaction = (\<lambda>r sent. if emoji r = ''boom'' then (Inl boomError, sent) else (Inr (), sent)),
      handleEv = (\<lambda>ev n. if eventType ev = ''boom'' then (Inl boomError, n) else (Inr (), Suc n))\<rparr>"

definition demoBot :: "(nat, nat, string list, nat) BotManager" where
  "demoBot =
     (newBotManager 0)\<lparr>securityManager := Some 0, rateLimiter := Some 0,
                        messageHandler := Some [], eventManager := Some 0\<rparr>"

definition msgFrom :: "string \<Rightarrow> string \<Rightarrow> message" where
  "msgFrom sender text = \<lparr>senderID = sender, threadID = ''t1'', messageID = ''m1'', body = text\<rparr>"

definition demoInit :: "(nat, nat, string list, nat) init_env" where
  "demoInit =
     \<lparr>secNew = 0, secInit = (\<lambda>s. (Inr (), s)), rlNew = 0,
      fbNew = \<lparr>fbConnected = False\<rparr>, fbInit = (\<lambda>a. (Inr (), a)), cmInit = None,
      emNew = 0, emInit = (\<lambda>s. (Inr (), s)), mhNew = []\<rparr>"

definition demoStart :: start_env where
  "demoStart =
     \<lparr>connect = (\<lambda>a. (Inr (), a\<lparr>fbConnected := True\<rparr>)),
      getBotInfo = (\<lambda>a. (Inr (Some (''bot'', ''100'')), a)),
      startNow = 5\<rparr>"


text \<open>
  \<open>trim\<close> and \<open>toLowerCase\<close> on texts whose characters are code units below 256. The
  white space there is U+0009 to U+000D, U+0020 and U+00A0; the capitals are A to Z and
  U+00C0 to U+00DE without U+00D7.
\<close>

definition isSpace :: "char \<Rightarrow> bool" where
  "isSpace c = (c \<in> set [CHR '' '', CHR 0x09, CHR 0x0A, CHR 0x0B, CHR 0x0C, CHR 0x0D, CHR 0xA0])"

definition latin1Trim :: "string \<Rightarrow> string" where
  "latin1Trim s = rev (dropWhile isSpace (rev (dropWhile isSpace s)))"

definition lowerChar :: "char \<Rightarrow> char" where
  "lowerChar c =
     (let n = (of_char c :: nat) in
      if (65 \<le> n \<and> n \<le> 90) \<or> (192 \<le> n \<and> n \<le> 222 \<and> n \<noteq> 215)
      then char_of (n + 32) else c)"

definition latin1Lower :: "string \<Rightarrow> string" where
  "latin1Lower s = map lowerChar s"

text \<open>
  An instance of the command's collaborators: a configured key, a model that answers
  \<open>hello\<close>, a transport that gives every sent message the identifier \<open>sent1\<close>, and a
  cache that stores the conversation as it is. \<open>quotaEnv\<close> is the same with a model out
  of quota.
\<close>

definition demoCodec :: "(conversation, conversation) codec" where
  "demoCodec = \<lparr>stringify = Inr, parse = (\<lambda>j. Inr (Some j))\<rparr>"

definition demoEnv :: ai_env where
  "demoEnv =
     \<lparr>getAIConfig = Inr \<lparr>apiKey = Some ''sk-test'', configModel = None\<rparr>,
      openaiClient = (\<lambda>k. None),
      typingIndicator = (\<lambda>t. None),
      createCompletion = (\<lambda>req. Inr ''hello''),
      replySent = (\<lambda>text. Some ''sent1''),
      clock = 42,
      strTrim = latin1Trim,
      strLower = latin1Lower\<rparr>"

definition quotaError :: js_error where
  "quotaError = JsError (Some ''insufficient_quota'') ''You exceeded your current quota''"

definition quotaEnv :: ai_env where
  "quotaEnv = demoEnv\<lparr>createCompletion := (\<lambda>req. Inl quotaError)\<rparr>"

definition demoPending :: pendingReply where
  "demoPending =
     \<lparr>commandName = ''ai'', pendingMessageID = ''sent1'', author = ''u1'', conversationId = ''t1_u1''\<rparr>"

definition oldTurn :: turn where
  "oldTurn = \<lparr>role = ''user'', content = ''x'', timestamp = 0\<rparr>"

definition conversationOf :: "nat \<Rightarrow> conversation" where
  "conversationOf n =
     \<lparr>convId = ''t1_u1'', convUserID = ''u1'', convThreadID = ''t1'', model = ModelName ''gpt-4'',
      systemPrompt = defaultSystemPrompt, messages = replicate n oldTurn, createdAt = 0, lastUsed = 0\<rparr>"

text \<open>
  Worlds: one without sessions and without a redis client, one whose only session has
  \<open>n\<close> turns, one whose cache holds a session of two turns, and one whose cache is down.
\<close>

definition emptyWorld :: "conversation ai_world" where
  "emptyWorld =
     \<lparr>conversations = Map.empty, heap = (\<lambda>r. conversationOf 0), nextRef = 0,
      database = \<lparr>redis = None, dbLog = []\<rparr>,
      onReplyRegistry = Map.empty, outbox = [], typingSent = [], requests = [], aiLog = []\<rparr>"

definition worldWith :: "nat \<Rightarrow> conversation ai_world" where
  "worldWith n =
     emptyWorld\<lparr>conversations := [''t1_u1'' \<mapsto> 0], heap := (\<lambda>r. conversationOf n), nextRef := 1\<rparr>"

definition cachedWorld :: "conversation ai_world" where
  "cachedWorld =
     emptyWorld\<lparr>database :=
       \<lparr>redis = Some \<lparr>kv = [cacheKey ''t1_u1'' \<mapsto> (conversationOf 2, 3600)], redisDown = None\<rparr>,
        dbLog = []\<rparr>\<rparr>"

definition downWorld :: "conversation ai_world" where
  "downWorld =
     emptyWorld\<lparr>database :=
       \<lparr>redis = Some \<lparr>kv = Map.empty, redisDown = Some (JsError None ''ECONNREFUSED'')\<rparr>, dbLog = []\<rparr>\<rparr>"

text \<open>
  The manager in front of the ai command: checks that admit every message, and a message
  handler that hands the message to \<open>onStart\<close> with the single argument \<open>hello\<close>
  and hands on what \<open>onStart\<close> throws.
\<close>

definition aiCollab :: "ai_env \<Rightarrow> (nat, nat, conversation ai_world, nat) collaborators" where
  "aiCollab env =
     \<lparr>checkMessage = (\<lambda>m n. (Inr True, n)),
      checkLimit = (\<lambda>i n. (Inr True, n)),
      handle = (\<lambda>m. onStart env demoCodec [''hello''] m),
      handleReaction = (\<lambda>r w. (Inr (), w)),
      handleEv = (\<lambda>ev n. (Inr (), n))\<rparr>"

definition aiBot :: "(nat, nat, conversation ai_world, nat) BotManager" where
  "aiBot =
     (newBotManager 0)\<lparr>securityManager := Some 0, rateLimiter := Some 0,
                        messageHandler := Some emptyWorld, eventManager := Some 0\<rparr>"

definition helloRequest :: chat_request where
  "helloRequest =
     \<lparr>reqModel = ModelName ''gpt-3.5-turbo'',
      reqMessages = [(''system'', defaultSystemPrompt), (''user'', ''hello'')]\<rparr>"

text \<open>A limiter of two events per ten milliseconds, and a burst of calls.\<close>

definition demoLimiter :: RateLimiter where
  "demoLimiter = \<lparr>windowSize = 10, maxEvents = 2, windows = Map.empty\<rparr>"

definition demoCalls :: "(string \<times> int) list" where
  "demoCalls = [(''s'', 0), (''s'', 1), (''s'', 2), (''t'', 2), (''s'', 11), (''s'', 12)]"

text \<open>
  Two messages of one sender on a session of 18 turns, the second arriving before the
  first is answered: both handlers pass the typing indicator, both append their user's
  turn, and both append the model's answer.
\<close>

definition overlapped :: "conversation ai_world" where
  "overlapped =
     onStart_resume demoEnv demoCodec (msgFrom ''u1'' ''ai hello'') 0 (Inr ''hello'')
       (onStart_resume demoEnv demoCodec (msgFrom ''u1'' ''ai hello'') 0 (Inr ''hello'')
         (snd (onStart_typed demoEnv \<lparr>apiKey = Some ''sk-test'', configModel = None\<rparr> ''hello''
                 (msgFrom ''u1'' ''ai hello'') None
           (snd (onStart_typed demoEnv \<lparr>apiKey = Some ''sk-test'', configModel = None\<rparr> ''hello''
                   (msgFrom ''u1'' ''ai hello'') None
             (snd (onStart_begin demoEnv [''hello''] (msgFrom ''u1'' ''ai hello'')
               (snd (onStart_begin demoEnv [''hello''] (msgFrom ''u1'' ''ai hello'') (worldWith 18))))))))))"

section \<open>Properties of the manager\<close>

lemmas bot_defs = handleMessage_def handleMessage_try_def logTo_def countError_def Let_def

lemmas demo_defs = demoCodec_def demoEnv_def emptyWorld_def downWorld_def cachedWorld_def
  conversationOf_def worldWith_def demoPending_def msgFrom_def oldTurn_def quotaEnv_def quotaError_def

lemma handleMessage_returns: "fst (handleMessage c m b) = Inr ()"
  by (simp add: handleMessage_def Let_def split: prod.splits sum.splits)

lemma listenerCatch_returns: "fst (listenerCatch what f b) = Inr ()"
  by (simp add: listenerCatch_def split: prod.splits sum.splits)

text \<open>A running manager has a transport object: \<open>start()\<close> connects it before it sets the flag.\<close>

lemma running_has_transport: "reachable b \<Longrightarrow> isRunning b \<longrightarrow> facebookAPI b \<noteq> None"
proof (induction rule: reachable.induct)
  case (reach_new now)
  then show ?case by (simp add: newBotManager_def)
next
  case (reach_initialize b ienv)
  then show ?case
    by (auto simp: initialize_def initialize_try_def Let_def logTo_def
        split: prod.splits sum.splits option.splits)
next
  case (reach_start b senv)
  then show ?case
    by (auto simp: start_def start_try_def Let_def logTo_def
        split: prod.splits sum.splits option.splits if_splits)
next
  case (reach_stop b disconnect)
  then show ?case
    by (auto simp: stop_def stop_try_def Let_def logTo_def
        split: prod.splits sum.splits option.splits if_splits)
next
  case (reach_message b c m)
  then show ?case
    by (auto simp: onMessage_def listenerCatch_def handleMessage_def handleMessage_try_def
        countError_def Let_def logTo_def split: prod.splits sum.splits option.splits if_splits)
next
  case (reach_event b c ev)
  then show ?case
    by (auto simp: onEvent_def listenerCatch_def handleEvent_def countError_def Let_def logTo_def
        split: prod.splits sum.splits option.splits if_splits)
next
  case (reach_reaction b c r)
  then show ?case
    by (auto simp: onReaction_def listenerCatch_def handleReactionB_def countError_def Let_def logTo_def
        split: prod.splits sum.splits option.splits if_splits)
next
  case (reach_transport b a a')
  then show ?case by simp
qed


section \<open>Properties of the cache operations and of the ai command\<close>

lemma cacheSet_returns: "\<exists>ok db1. cacheSet cd key v ttl db = (Inr ok, db1)"
  by (auto simp: cacheSet_def split: option.splits prod.splits sum.splits)

lemma cacheGet_returns: "\<exists>r db1. cacheGet cd key db = (Inr r, db1)"
  by (auto simp: cacheGet_def split: option.splits prod.splits sum.splits)

lemma redis_same: "redis db = Some r \<Longrightarrow> db\<lparr>redis := Some r\<rparr> = db"
  by (cases db) simp

lemma requests_reply [simp]: "requests (reply t w) = requests w"
  by (simp add: reply_def)

lemma requests_aiLogTo [simp]: "requests (aiLogTo l w) = requests w"
  by (simp add: aiLogTo_def)

lemma requests_clear [simp]: "requests (clearConversation cid w) = requests w"
  by (simp add: clearConversation_def)

lemma requests_switch [simp]: "requests (switchModel env m cid w) = requests w"
  by (simp add: switchModel_def Let_def split: option.splits)

lemma requests_prompt [simp]: "requests (setSystemPrompt p cid w) = requests w"
  by (simp add: setSystemPrompt_def split: option.splits)

lemma requests_help [simp]: "requests (showHelp w) = requests w"
  by (simp add: showHelp_def)

lemma appendUserTurn_messages:
  "messages (appendUserTurn input now c) =
     (if 20 < length (messages c @ [\<lparr>role = ''user'', content = input, timestamp = now\<rparr>])
      then sliceLast 10 (messages c @ [\<lparr>role = ''user'', content = input, timestamp = now\<rparr>])
      else messages c @ [\<lparr>role = ''user'', content = input, timestamp = now\<rparr>])"
  by (simp add: appendUserTurn_def pushTurn_def Let_def)

lemma appendUserTurn_length: "length (messages (appendUserTurn input now c)) \<le> 20"
  by (simp add: appendUserTurn_messages sliceLast_def)

lemma appendUserTurn_last:
  "messages (appendUserTurn input now c) \<noteq> []
   \<and> last (messages (appendUserTurn input now c)) = \<lparr>role = ''user'', content = input, timestamp = now\<rparr>"
  by (simp add: appendUserTurn_def pushTurn_def sliceLast_def Let_def)

text \<open>The two parts of the exchange.\<close>

lemma exchangeRequest_result:
  "exchangeRequest env input r w = (req, w1) \<Longrightarrow>
     req = chatRequest (heap w1 r)
     \<and> heap w1 = (heap w)(r := appendUserTurn input (clock env) ((heap w r)\<lparr>lastUsed := clock env\<rparr>))
     \<and> requests w1 = requests w @ [req]
     \<and> conversations w1 = conversations w \<and> outbox w1 = outbox w \<and> database w1 = database w"
  by (auto simp: exchangeRequest_def Let_def)

lemma exchangeComplete_fails: "exchangeComplete env cd ev cid fmt r (Inl e) w = (Inl e, w)"
  by (simp add: exchangeComplete_def)

lemma exchangeComplete_answer:
  "fst (exchangeComplete env cd ev cid fmt r (Inr answer) w) = Inr ()
   \<and> heap (snd (exchangeComplete env cd ev cid fmt r (Inr answer) w)) =
       (heap w)(r := appendAssistantTurn answer (clock env) (heap w r))
   \<and> conversations (snd (exchangeComplete env cd ev cid fmt r (Inr answer) w)) = conversations w
   \<and> requests (snd (exchangeComplete env cd ev cid fmt r (Inr answer) w)) = requests w"
proof -
  obtain ok db1 where
    "cacheSet cd (cacheKey cid) (appendAssistantTurn answer (clock env) (heap w r)) 3600 (database w) = (Inr ok, db1)"
    using cacheSet_returns [of cd "cacheKey cid" "appendAssistantTurn answer (clock env) (heap w r)" 3600 "database w"]
    by auto
  then show ?thesis
    by (simp add: exchangeComplete_def Let_def reply_def split: option.splits)
qed

lemma exchangeComplete_requests:
  "requests (snd (exchangeComplete env cd ev cid fmt r outcome w)) = requests w"
  by (cases outcome) (simp_all add: exchangeComplete_fails exchangeComplete_answer)

lemma onStart_resume_requests [simp]: "requests (onStart_resume env cd ev r outcome w) = requests w"
  using exchangeComplete_requests [of env cd ev "conversationKey ev" formatStart r outcome w]
  by (auto simp: onStart_resume_def onStart_catch_def split: prod.splits sum.splits)

lemma onReply_resume_requests [simp]: "requests (onReply_resume env cd ev rep r outcome w) = requests w"
  using exchangeComplete_requests [of env cd ev "conversationId rep" formatReply r outcome w]
  by (auto simp: onReply_resume_def onReply_catch_def split: prod.splits sum.splits)

text \<open>The parts of \<open>onStart\<close> before the call of the model.\<close>

lemma onStart_begin_facts:
  assumes "onStart_begin env args ev w = (s, w1)"
  shows "requests w1 = requests w \<and> (\<forall>r req. s \<noteq> AwaitingModel r req) \<and> (\<forall>i f. s \<noteq> AwaitingCache i f)
     \<and> (\<forall>cfg input. s = AwaitingTyping cfg input \<longrightarrow>
           input = strTrim env (join '' '' args) \<and> outbox w1 = outbox w
           \<and> conversations w1 = conversations w \<and> heap w1 = heap w)"
  using assms
  by (auto simp: onStart_begin_def onStart_guard_def onStart_begin_try_def onStart_catch_def Let_def
      split: sum.splits option.splits if_splits prod.splits)

lemma onStart_typed_awaiting:
  assumes "onStart_typed env cfg input ev outcome w = (AwaitingModel r req, w1)"
  shows "outcome = None
     \<and> (\<exists>w0. exchangeRequest env input r w0 = (req, w1)
           \<and> conversations w0 (conversationKey ev) = Some r
           \<and> messages (heap w0 r) = (case sessionOf w (conversationKey ev) of None \<Rightarrow> [] | Some c \<Rightarrow> messages c)
           \<and> outbox w0 = outbox w \<and> requests w0 = requests w)"
  using assms
  by (auto simp: onStart_typed_def onStart_guard_def onStart_typed_try_def Let_def allocate_def sessionOf_def
      newConversation_def split: if_splits option.splits prod.splits)

lemma onStart_typed_ok:
  "\<exists>r req w1. onStart_typed env cfg input ev None w = (AwaitingModel r req, w1)"
  by (auto simp: onStart_typed_def onStart_guard_def onStart_typed_try_def split: option.splits prod.splits)

lemma onStart_typed_cases:
  "onStart_typed env cfg input ev outcome w = (s, w1) \<Longrightarrow>
     (s = Finished \<and> requests w1 = requests w) \<or> (\<exists>r req. s = AwaitingModel r req)"
  by (auto simp: onStart_typed_def onStart_guard_def onStart_typed_try_def onStart_catch_def
      split: option.splits prod.splits)

lemma onStart_typed_other:
  assumes "onStart_typed env cfg input ev outcome w = (s, w1)" and "\<And>r req. s \<noteq> AwaitingModel r req"
  shows "s = Finished \<and> requests w1 = requests w"
  using onStart_typed_cases [OF assms(1)] assms(2) by blast

lemma onStart_request_awaiting:
  assumes "onStart_request env args ev w = (AwaitingModel r req, w1)"
  shows "\<exists>w0. exchangeRequest env (strTrim env (join '' '' args)) r w0 = (req, w1)
           \<and> conversations w0 (conversationKey ev) = Some r
           \<and> messages (heap w0 r) =
               (case sessionOf w (conversationKey ev) of None \<Rightarrow> [] | Some c \<Rightarrow> messages c)
           \<and> outbox w0 = outbox w \<and> requests w0 = requests w"
proof (cases "onStart_begin env args ev w")
  case (Pair s wb)
  note b = onStart_begin_facts [OF Pair]
  show ?thesis
  proof (cases s)
    case (AwaitingTyping cfg input)
    with b have i: "input = strTrim env (join '' '' args)" "outbox wb = outbox w"
      "conversations wb = conversations w" "heap wb = heap w" "requests wb = requests w"
      by simp_all
    from assms Pair AwaitingTyping
    have "onStart_typed env cfg input ev (typingIndicator env (threadID ev)) wb = (AwaitingModel r req, w1)"
      by (simp add: onStart_request_def)
    from onStart_typed_awaiting [OF this] i show ?thesis
      by (simp add: sessionOf_def)
  qed (use assms Pair b in \<open>simp_all add: onStart_request_def\<close>)
qed

lemma onStart_request_other:
  assumes "onStart_request env args ev w = (s, w1)" and "\<And>r req. s \<noteq> AwaitingModel r req"
  shows "requests w1 = requests w"
proof (cases "onStart_begin env args ev w")
  case (Pair sb wb)
  note b = onStart_begin_facts [OF Pair]
  show ?thesis
  proof (cases sb)
    case (AwaitingTyping cfg input)
    with assms(1) Pair
    have "onStart_typed env cfg input ev (typingIndicator env (threadID ev)) wb = (s, w1)"
      by (simp add: onStart_request_def)
    from onStart_typed_other [OF this assms(2)] b show ?thesis by simp
  qed (use assms Pair b in \<open>simp_all add: onStart_request_def\<close>)
qed

text \<open>The failure of the model's call in \<open>onStart\<close>.\<close>

lemma onStart_quota:
  assumes llm: "createCompletion env req = Inl e" "err_code e = Some ''insufficient_quota''"
    and called: "requests (snd (onStart env cd args ev w)) = requests w @ [req]"
  shows "fst (onStart env cd args ev w) = Inr ()
     \<and> outbox (snd (onStart env cd args ev w)) = outbox w @ [msgQuota]
     \<and> (\<exists>c1. sessionOf (snd (onStart env cd args ev w)) (conversationKey ev) = Some c1
           \<and> chatRequest c1 = req \<and> role (last (messages c1)) = ''user'')"
proof (cases "onStart_request env args ev w")
  case (Pair s w1)
  show ?thesis
  proof (cases "\<exists>r req'. s = AwaitingModel r req'")
    case False
    then have "requests w1 = requests w" using onStart_request_other [OF Pair] by blast
    moreover from False Pair have "snd (onStart env cd args ev w) = w1"
      by (cases s) (simp_all add: onStart_def)
    ultimately show ?thesis using called by simp
  next
    case True
    then obtain r req' where s: "s = AwaitingModel r req'" by blast
    with Pair obtain w0 where w0: "exchangeRequest env (strTrim env (join '' '' args)) r w0 = (req', w1)"
      "conversations w0 (conversationKey ev) = Some r" "outbox w0 = outbox w" "requests w0 = requests w"
      using onStart_request_awaiting [of env args ev w r req' w1] by auto
    from exchangeRequest_result [OF w0(1)] have x: "req' = chatRequest (heap w1 r)"
      "heap w1 = (heap w0)(r := appendUserTurn (strTrim env (join '' '' args)) (clock env) ((heap w0 r)\<lparr>lastUsed := clock env\<rparr>))"
      "requests w1 = requests w0 @ [req']" "conversations w1 = conversations w0" "outbox w1 = outbox w0"
      by simp_all
    have run: "onStart env cd args ev w = (Inr (), onStart_resume env cd ev r (createCompletion env req') w1)"
      using Pair s by (simp add: onStart_def)
    with called x(3) w0(4) have req: "req' = req" by simp
    have res: "onStart_resume env cd ev r (createCompletion env req') w1 = onStart_catch e w1"
      using llm(1) req by (simp add: onStart_resume_def exchangeComplete_fails)
    have run': "onStart env cd args ev w = (Inr (), onStart_catch e w1)"
      using run res by simp
    have o: "outbox (onStart_catch e w1) = outbox w @ [msgQuota]"
      using llm(2) x(5) w0(3) by (simp add: onStart_catch_def errorMessage_def reply_def aiLogTo_def)
    have ss: "sessionOf (onStart_catch e w1) (conversationKey ev) = Some (heap w1 r)"
      using x(4) w0(2) by (simp add: onStart_catch_def reply_def aiLogTo_def sessionOf_def)
    have c: "chatRequest (heap w1 r) = req"
      using x(1) req by simp
    have l: "role (last (messages (heap w1 r))) = ''user''"
      using x(2) by (simp add: appendUserTurn_last)
    show ?thesis
      unfolding run' using o ss c l by simp
  qed
qed

text \<open>The parts of \<open>onReply\<close> before the call of the model.\<close>

lemma onReply_begin_facts:
  assumes "onReply_begin env ev rep w = (s, w1)"
  shows "requests w1 = requests w \<and> (\<forall>r req. s \<noteq> AwaitingModel r req) \<and> (\<forall>i f. s \<noteq> AwaitingCache i f)
     \<and> (\<forall>cfg input. s = AwaitingTyping cfg input \<longrightarrow>
           input = strTrim env (body ev) \<and> outbox w1 = outbox w
           \<and> conversations w1 = conversations w \<and> heap w1 = heap w \<and> database w1 = database w)"
  using assms
  by (auto simp: onReply_begin_def onReply_guard_def onReply_begin_try_def onReply_catch_def Let_def
      split: sum.splits option.splits if_splits prod.splits)

lemma onReply_typed_awaiting:
  assumes "onReply_typed env cd ev rep input outcome w = (AwaitingModel r req, w1)"
  shows "outcome = None \<and> conversations w (conversationId rep) = Some r
     \<and> exchangeRequest env input r w = (req, w1)"
  using assms
  by (auto simp: onReply_typed_def onReply_guard_def onReply_typed_try_def
      split: option.splits prod.splits sum.splits)

lemma onReply_typed_cache:
  assumes "onReply_typed env cd ev rep input outcome w = (AwaitingCache i found, w1)"
  shows "outcome = None \<and> conversations w (conversationId rep) = None \<and> i = input
     \<and> cacheGet cd (cacheKey (conversationId rep)) (database w) = (Inr found, database w1)
     \<and> conversations w1 = conversations w \<and> heap w1 = heap w \<and> nextRef w1 = nextRef w"
  using assms
  by (auto simp: onReply_typed_def onReply_guard_def onReply_typed_try_def
      split: option.splits prod.splits sum.splits)

lemma onReply_cached_awaiting:
  assumes "onReply_cached env ev rep input found w = (AwaitingModel r req, w1)"
  shows "\<exists>c. found = Some c \<and> r = nextRef w
     \<and> exchangeRequest env input r
          (w\<lparr>heap := (heap w)(nextRef w := c), nextRef := Suc (nextRef w),
             conversations := (conversations w)(conversationId rep \<mapsto> nextRef w)\<rparr>) = (req, w1)"
  using assms
  by (auto simp: onReply_cached_def onReply_guard_def onReply_cached_try_def allocate_def
      split: option.splits prod.splits sum.splits)

lemma onReply_request_awaiting:
  assumes "onReply_request env cd ev rep w = (AwaitingModel r req, w1)"
  shows "\<exists>w0. exchangeRequest env (strTrim env (body ev)) r w0 = (req, w1)
           \<and> conversations w0 (conversationId rep) = Some r"
proof (cases "onReply_begin env ev rep w")
  case (Pair sb wb)
  note b = onReply_begin_facts [OF Pair]
  show ?thesis
  proof (cases sb)
    case (AwaitingTyping cfg input)
    with b have i: "input = strTrim env (body ev)" by simp
    obtain st wt where t: "onReply_typed env cd ev rep input (typingIndicator env (threadID ev)) wb = (st, wt)"
      by (cases "onReply_typed env cd ev rep input (typingIndicator env (threadID ev)) wb")
    show ?thesis
    proof (cases st)
      case (AwaitingModel r' req')
      with assms Pair AwaitingTyping t have "r' = r" "req' = req" "wt = w1"
        by (simp_all add: onReply_request_def)
      with t AwaitingModel onReply_typed_awaiting [of env cd ev rep input _ wb r req w1] i
      show ?thesis by auto
    next
      case (AwaitingCache i' found)
      with assms Pair AwaitingTyping t
      have c: "onReply_cached env ev rep i' found wt = (AwaitingModel r req, w1)"
        by (simp add: onReply_request_def)
      from t AwaitingCache onReply_typed_cache [of env cd ev rep input _ wb i' found wt]
      have "i' = input" by simp
      with onReply_cached_awaiting [OF c] i show ?thesis by auto
    qed (use assms Pair AwaitingTyping t in \<open>simp_all add: onReply_request_def\<close>)
  qed (use assms Pair b in \<open>simp_all add: onReply_request_def\<close>)
qed

lemma request_leaves_twenty:
  assumes "exchangeRequest env input r w0 = (req, w1)" and "conversations w0 cid = Some r"
    and "messages (heap w0 r) = old"
  shows "conversations w1 cid = Some r
     \<and> messages (heap w1 r) =
         (let xs = old @ [\<lparr>role = ''user'', content = input, timestamp = clock env\<rparr>]
          in if 20 < length xs then sliceLast 10 xs else xs)
     \<and> length (messages (heap w1 r)) \<le> 20
     \<and> last (messages (heap w1 r)) = \<lparr>role = ''user'', content = input, timestamp = clock env\<rparr>
     \<and> req = chatRequest (heap w1 r)"
  using exchangeRequest_result [OF assms(1)] assms(2,3)
    appendUserTurn_length [of input "clock env" "(heap w0 r)\<lparr>lastUsed := clock env\<rparr>"]
    appendUserTurn_last [of input "clock env" "(heap w0 r)\<lparr>lastUsed := clock env\<rparr>"]
  by (simp add: appendUserTurn_messages Let_def)

lemma resume_appends:
  "messages (heap (snd (exchangeComplete env cd ev cid fmt r (Inr answer) w)) r) =
     messages (heap w r) @ [\<lparr>role = ''assistant'', content = answer, timestamp = clock env\<rparr>]"
  by (simp add: exchangeComplete_answer appendAssistantTurn_def pushTurn_def)

lemma exchangeComplete_pair:
  "exchangeComplete env cd ev cid fmt r (Inr answer) w =
     (Inr (), snd (exchangeComplete env cd ev cid fmt r (Inr answer) w))"
  using exchangeComplete_answer [of env cd ev cid fmt r answer w]
  by (metis prod.collapse)

lemma onStart_resume_answer:
  "heap (onStart_resume env cd ev r (Inr answer) w) = (heap w)(r := appendAssistantTurn answer (clock env) (heap w r))
   \<and> conversations (onStart_resume env cd ev r (Inr answer) w) = conversations w"
  using exchangeComplete_answer [of env cd ev "conversationKey ev" formatStart r answer w]
    exchangeComplete_pair [of env cd ev "conversationKey ev" formatStart r answer w]
  by (auto simp: onStart_resume_def aiLogTo_def split: prod.splits sum.splits)

lemma onReply_resume_answer:
  "heap (onReply_resume env cd ev rep r (Inr answer) w) = (heap w)(r := appendAssistantTurn answer (clock env) (heap w r))
   \<and> conversations (onReply_resume env cd ev rep r (Inr answer) w) = conversations w"
  using exchangeComplete_answer [of env cd ev "conversationId rep" formatReply r answer w]
    exchangeComplete_pair [of env cd ev "conversationId rep" formatReply r answer w]
  by (auto simp: onReply_resume_def split: prod.splits sum.splits)

text \<open>What the parts before the call of the model come to.\<close>

lemma onStart_typed_eval:
  "conversations w (conversationKey ev) = Some r \<Longrightarrow>
   onStart_typed env cfg input ev None w =
     (AwaitingModel r (fst (exchangeRequest env input r w)), snd (exchangeRequest env input r w))"
  by (simp add: onStart_typed_def onStart_guard_def onStart_typed_try_def split: prod.splits)

lemma onReply_typed_eval:
  "conversations w (conversationId rep) = Some r \<Longrightarrow>
   onReply_typed env cd ev rep input None w =
     (AwaitingModel r (fst (exchangeRequest env input r w)), snd (exchangeRequest env input r w))"
  by (simp add: onReply_typed_def onReply_guard_def onReply_typed_try_def split: prod.splits)

lemma onReply_typed_miss:
  "conversations w (conversationId rep) = None \<Longrightarrow>
   cacheGet cd (cacheKey (conversationId rep)) (database w) = (Inr found, db1) \<Longrightarrow>
   onReply_typed env cd ev rep input None w = (AwaitingCache input found, w\<lparr>database := db1\<rparr>)"
  by (simp add: onReply_typed_def onReply_guard_def onReply_typed_try_def)

lemma onReply_cached_eval:
  "onReply_cached env ev rep input (Some c) w =
     (AwaitingModel (nextRef w)
        (fst (exchangeRequest env input (nextRef w)
               (w\<lparr>heap := (heap w)(nextRef w := c), nextRef := Suc (nextRef w),
                  conversations := (conversations w)(conversationId rep \<mapsto> nextRef w)\<rparr>))),
      snd (exchangeRequest env input (nextRef w)
               (w\<lparr>heap := (heap w)(nextRef w := c), nextRef := Suc (nextRef w),
                  conversations := (conversations w)(conversationId rep \<mapsto> nextRef w)\<rparr>)))"
  by (simp add: onReply_cached_def onReply_guard_def onReply_cached_try_def allocate_def split: prod.splits)

lemma onReply_cached_none:
  "onReply_cached env ev rep input None w = (Finished, reply msgNotFound w)"
  by (simp add: onReply_cached_def onReply_guard_def onReply_cached_try_def)

lemma onReply_begin_eval:
  assumes "senderID ev = author rep" and "strTrim env (body ev) \<noteq> []"
    and "strLower env (strTrim env (body ev)) \<noteq> ''clear''"
    and "getAIConfig env = Inr cfg" and "openaiClient env (apiKey cfg) = None"
  shows "onReply_begin env ev rep w =
     (AwaitingTyping cfg (strTrim env (body ev)), w\<lparr>typingSent := typingSent w @ [threadID ev]\<rparr>)"
  using assms by (simp add: onReply_begin_def onReply_guard_def onReply_begin_try_def Let_def)

lemma onStart_requests:
  "requests (snd (onStart env cd args ev w)) = requests (snd (onStart_request env args ev w))"
  by (cases "onStart_request env args ev w"; cases "fst (onStart_request env args ev w)")
     (simp_all add: onStart_def)

lemma onStart_returns: "fst (onStart env cd args ev w) = Inr ()"
  by (cases "onStart_request env args ev w"; cases "fst (onStart_request env args ev w)")
     (simp_all add: onStart_def)

text \<open>Runs on the concrete inputs.\<close>

lemma trim_hello: "latin1Trim ''hello'' = ''hello''"
  by (simp add: latin1Trim_def isSpace_def)

lemma lower_hello: "latin1Lower ''hello'' = ''hello''"
  by (simp add: latin1Lower_def lowerChar_def Let_def)

lemma trim_more: "latin1Trim ''more'' = ''more''"
  by (simp add: latin1Trim_def isSpace_def)

lemma lower_more: "latin1Lower ''more'' = ''more''"
  by (simp add: latin1Lower_def lowerChar_def Let_def)

lemma key_u1: "conversationKey (msgFrom ''u1'' text) = ''t1_u1''"
  by (simp add: conversationKey_def msgFrom_def)

lemma hello_begin:
  assumes "getAIConfig env = getAIConfig demoEnv" and "openaiClient env = openaiClient demoEnv"
    and "strTrim env = latin1Trim" and "strLower env = latin1Lower"
  shows "onStart_begin env [''hello''] (msgFrom ''u1'' ''ai hello'') w =
     (AwaitingTyping \<lparr>apiKey = Some ''sk-test'', configModel = None\<rparr> ''hello'',
      w\<lparr>typingSent := typingSent w @ [''t1'']\<rparr>)"
  using assms
  by (simp add: onStart_begin_def onStart_guard_def onStart_begin_try_def Let_def trim_hello lower_hello
      demoEnv_def falsy_def) (simp add: msgFrom_def)

lemma hello_request_demo:
  assumes "conversations w ''t1_u1'' = Some r"
  shows "onStart_request demoEnv [''hello''] (msgFrom ''u1'' ''ai hello'') w =
     (AwaitingModel r (fst (exchangeRequest demoEnv ''hello'' r (w\<lparr>typingSent := typingSent w @ [''t1'']\<rparr>))),
      snd (exchangeRequest demoEnv ''hello'' r (w\<lparr>typingSent := typingSent w @ [''t1'']\<rparr>)))"
proof -
  have b: "onStart_begin demoEnv [''hello''] (msgFrom ''u1'' ''ai hello'') w =
     (AwaitingTyping \<lparr>apiKey = Some ''sk-test'', configModel = None\<rparr> ''hello'',
      w\<lparr>typingSent := typingSent w @ [''t1'']\<rparr>)"
    by (rule hello_begin) (simp_all add: demoEnv_def)
  have t: "typingIndicator demoEnv (threadID (msgFrom ''u1'' ''ai hello'')) = None"
    by (simp add: demoEnv_def)
  have k: "conversations (w\<lparr>typingSent := typingSent w @ [''t1'']\<rparr>) (conversationKey (msgFrom ''u1'' ''ai hello'')) = Some r"
    using assms by (simp add: key_u1)
  show ?thesis
    by (simp add: onStart_request_def b t onStart_typed_eval [OF k])
qed

lemma more_request_demo:
  assumes "conversations w ''t1_u1'' = Some r"
  shows "onReply_request demoEnv demoCodec (msgFrom ''u1'' ''more'') demoPending w =
     (AwaitingModel r (fst (exchangeRequest demoEnv ''more'' r (w\<lparr>typingSent := typingSent w @ [''t1'']\<rparr>))),
      snd (exchangeRequest demoEnv ''more'' r (w\<lparr>typingSent := typingSent w @ [''t1'']\<rparr>)))"
proof -
  have b: "onReply_begin demoEnv (msgFrom ''u1'' ''more'') demoPending w =
     (AwaitingTyping \<lparr>apiKey = Some ''sk-test'', configModel = None\<rparr> ''more'',
      w\<lparr>typingSent := typingSent w @ [''t1'']\<rparr>)"
    by (simp add: onReply_begin_def onReply_guard_def onReply_begin_try_def Let_def trim_more lower_more
        demoEnv_def demoPending_def msgFrom_def)
  have t: "typingIndicator demoEnv (threadID (msgFrom ''u1'' ''more'')) = None"
    by (simp add: demoEnv_def)
  have k: "conversations (w\<lparr>typingSent := typingSent w @ [''t1'']\<rparr>) (conversationId demoPending) = Some r"
    using assms by (simp add: demoPending_def)
  show ?thesis
    by (simp add: onReply_request_def b t onReply_typed_eval [OF k])
qed

lemma hello_request_heap:
  "heap (snd (exchangeRequest demoEnv input r w)) r = appendUserTurn input 42 ((heap w r)\<lparr>lastUsed := 42\<rparr>)
   \<and> conversations (snd (exchangeRequest demoEnv input r w)) = conversations w"
  by (simp add: exchangeRequest_def Let_def demoEnv_def)

text \<open>One exchange, alone, on a session of 19 turns.\<close>

lemma full_run:
  "messages (the (sessionOf
      (snd (onStart demoEnv demoCodec [''hello''] (msgFrom ''u1'' ''ai hello'') (worldWith 19))) ''t1_u1'')) =
    replicate 19 oldTurn @ [\<lparr>role = ''user'', content = ''hello'', timestamp = 42\<rparr>,
                            \<lparr>role = ''assistant'', content = ''hello'', timestamp = 42\<rparr>]"
proof -
  let ?ev = "msgFrom ''u1'' ''ai hello''"
  let ?x = "exchangeRequest demoEnv ''hello'' 0 ((worldWith 19)\<lparr>typingSent := typingSent (worldWith 19) @ [''t1'']\<rparr>)"
  have c: "conversations (worldWith 19) ''t1_u1'' = Some 0"
    by (simp add: worldWith_def)
  have run: "onStart demoEnv demoCodec [''hello''] ?ev (worldWith 19) =
      (Inr (), onStart_resume demoEnv demoCodec ?ev 0 (Inr ''hello'') (snd ?x))"
    by (simp add: onStart_def hello_request_demo [OF c]) (simp add: demoEnv_def)
  have h: "heap (snd ?x) 0 = appendUserTurn ''hello'' 42 ((conversationOf 19)\<lparr>lastUsed := 42\<rparr>)"
    and k: "conversations (snd ?x) ''t1_u1'' = Some 0"
    by (simp_all add: hello_request_heap) (simp_all add: worldWith_def)
  show ?thesis
    by (simp add: run sessionOf_def onStart_resume_answer k h appendAssistantTurn_def pushTurn_def
        appendUserTurn_messages) (simp add: conversationOf_def demoEnv_def)
qed

text \<open>Two exchanges on one session that overlap.\<close>

lemma overlapping_run: "length (messages (heap overlapped 0)) = 22"
proof -
  let ?ev = "msgFrom ''u1'' ''ai hello''"
  let ?cfg = "\<lparr>apiKey = Some ''sk-test'', configModel = None\<rparr>"
  let ?w2 = "snd (onStart_begin demoEnv [''hello''] ?ev (snd (onStart_begin demoEnv [''hello''] ?ev (worldWith 18))))"
  let ?w3 = "snd (onStart_typed demoEnv ?cfg ''hello'' ?ev None ?w2)"
  let ?w4 = "snd (onStart_typed demoEnv ?cfg ''hello'' ?ev None ?w3)"
  have b: "\<And>w. snd (onStart_begin demoEnv [''hello''] ?ev w) = w\<lparr>typingSent := typingSent w @ [''t1'']\<rparr>"
    by (subst hello_begin) (simp_all add: demoEnv_def)
  have c2: "conversations ?w2 (conversationKey ?ev) = Some 0" and h2: "heap ?w2 0 = conversationOf 18"
    by (simp_all add: b key_u1 worldWith_def)
  have c3: "conversations ?w3 (conversationKey ?ev) = Some 0"
    and l3: "length (messages (heap ?w3 0)) = 19"
    by (simp_all add: onStart_typed_eval [OF c2] hello_request_heap c2 h2 appendUserTurn_messages)
       (simp add: conversationOf_def)
  have l4: "length (messages (heap ?w4 0)) = 20"
    using l3 by (simp add: onStart_typed_eval [OF c3] hello_request_heap appendUserTurn_messages)
  show ?thesis
    unfolding overlapped_def using l4
    by (simp add: onStart_resume_answer appendAssistantTurn_def pushTurn_def)
qed

lemma exchangeComplete_outbox:
  "outbox (snd (exchangeComplete env cd ev cid fmt r (Inr answer) w)) = outbox w @ [fmt answer]"
proof -
  obtain ok db1 where
    "cacheSet cd (cacheKey cid) (appendAssistantTurn answer (clock env) (heap w r)) 3600 (database w) = (Inr ok, db1)"
    using cacheSet_returns [of cd "cacheKey cid" "appendAssistantTurn answer (clock env) (heap w r)" 3600 "database w"]
    by auto
  then show ?thesis
    by (simp add: exchangeComplete_def Let_def reply_def split: option.splits)
qed

lemma quota_requests:
  "requests (snd (onStart quotaEnv demoCodec [''hello''] (msgFrom ''u1'' ''ai hello'') emptyWorld)) = [helloRequest]"
proof -
  let ?ev = "msgFrom ''u1'' ''ai hello''"
  have b: "onStart_begin quotaEnv [''hello''] ?ev emptyWorld =
     (AwaitingTyping \<lparr>apiKey = Some ''sk-test'', configModel = None\<rparr> ''hello'',
      emptyWorld\<lparr>typingSent := typingSent emptyWorld @ [''t1'']\<rparr>)"
    by (rule hello_begin) (simp_all add: quotaEnv_def demoEnv_def)
  have t: "typingIndicator quotaEnv (threadID ?ev) = None"
    by (simp add: quotaEnv_def demoEnv_def)
  have rq: "onStart_request quotaEnv [''hello''] ?ev emptyWorld =
      onStart_typed quotaEnv \<lparr>apiKey = Some ''sk-test'', configModel = None\<rparr> ''hello'' ?ev None
        (emptyWorld\<lparr>typingSent := typingSent emptyWorld @ [''t1'']\<rparr>)"
    by (simp only: onStart_request_def b t prod.case suspended.case)
  show ?thesis
    unfolding onStart_requests rq
    by (simp add: onStart_typed_def onStart_guard_def onStart_typed_try_def key_u1 allocate_def
        exchangeRequest_def Let_def emptyWorld_def)
       (simp add: newConversation_def appendUserTurn_def pushTurn_def chatRequest_def helloRequest_def
        quotaEnv_def demoEnv_def Let_def falsy_def)
qed

lemma quota_dispatch:
  "handleMessage (aiCollab quotaEnv) (msgFrom ''u1'' ''ai hello'') aiBot =
     (Inr (), aiBot\<lparr>stats := (stats aiBot)\<lparr>messagesProcessed := 1\<rparr>,
        messageHandler := Some (snd (onStart quotaEnv demoCodec [''hello''] (msgFrom ''u1'' ''ai hello'') emptyWorld))\<rparr>)"
proof -
  obtain w1 where ow: "onStart quotaEnv demoCodec [''hello''] (msgFrom ''u1'' ''ai hello'') emptyWorld = (Inr (), w1)"
    using onStart_returns [of quotaEnv demoCodec "[''hello'']" "msgFrom ''u1'' ''ai hello''" emptyWorld]
    by (cases "onStart quotaEnv demoCodec [''hello''] (msgFrom ''u1'' ''ai hello'') emptyWorld") simp
  show ?thesis
    by (simp add: handleMessage_def handleMessage_try_def Let_def aiCollab_def aiBot_def newBotManager_def ow)
qed

text \<open>The same failure in \<open>onReply\<close> is answered with the general text of its \<open>catch\<close>.\<close>

lemma onReply_quota_run:
  "outbox (snd (onReply quotaEnv demoCodec (msgFrom ''u1'' ''more'') demoPending (worldWith 1))) = [msgReplyError]"
proof -
  let ?ev = "msgFrom ''u1'' ''more''"
  let ?w0 = "(worldWith 1)\<lparr>typingSent := typingSent (worldWith 1) @ [threadID ?ev]\<rparr>"
  have b: "onReply_begin quotaEnv ?ev demoPending (worldWith 1) =
     (AwaitingTyping \<lparr>apiKey = Some ''sk-test'', configModel = None\<rparr> (strTrim quotaEnv (body ?ev)), ?w0)"
    by (rule onReply_begin_eval)
       (simp_all add: quotaEnv_def demoEnv_def msgFrom_def demoPending_def trim_more lower_more)
  have t: "typingIndicator quotaEnv (threadID ?ev) = None"
    by (simp add: quotaEnv_def demoEnv_def)
  have k: "conversations ?w0 (conversationId demoPending) = Some 0"
    by (simp add: worldWith_def demoPending_def)
  have rq: "onReply_request quotaEnv demoCodec ?ev demoPending (worldWith 1) =
      (AwaitingModel 0 (fst (exchangeRequest quotaEnv (strTrim quotaEnv (body ?ev)) 0 ?w0)),
       snd (exchangeRequest quotaEnv (strTrim quotaEnv (body ?ev)) 0 ?w0))"
    by (simp only: onReply_request_def b t onReply_typed_eval [OF k] prod.case suspended.case)
  have o: "outbox (snd (exchangeRequest quotaEnv (strTrim quotaEnv (body ?ev)) 0 ?w0)) = []"
    by (simp add: exchangeRequest_def Let_def worldWith_def emptyWorld_def)
  have q: "\<And>req. createCompletion quotaEnv req = Inl quotaError"
    by (simp add: quotaEnv_def)
  have run: "onReply quotaEnv demoCodec ?ev demoPending (worldWith 1) =
      (Inr (), onReply_catch quotaError (snd (exchangeRequest quotaEnv (strTrim quotaEnv (body ?ev)) 0 ?w0)))"
    by (simp only: onReply_def rq prod.case suspended.case onReply_resume_def q exchangeComplete_fails sum.case)
  show ?thesis
    unfolding run using o by (simp add: onReply_catch_def reply_def aiLogTo_def)
qed

lemma demo_started:
  "snd (start demoStart (snd (initialize demoInit (newBotManager 0)))) =
     (newBotManager 0 :: (nat, nat, string list, nat) BotManager)\<lparr>securityManager := Some 0, rateLimiter := Some 0,
        messageHandler := Some [], eventManager := Some 0, commandManager := Some (),
        facebookAPI := Some \<lparr>fbConnected = True\<rparr>, isRunning := True,
        botInfo := Some (''bot'', ''100''), listening := True, periodicTasks := True, startTime := 5,
        logger := [Log Info ''Initializing BotManager...'' None,
                   Log Success ''BotManager initialized successfully'' None,
                   Log Info ''Starting Enhanced SecretBot...'' None,
                   Log Info ''Bot connected as: bot (100)'' None,
                   Log Success ''Enhanced SecretBot started successfully'' None]\<rparr>"
  by (simp add: start_def start_try_def initialize_def initialize_try_def demoStart_def demoInit_def
        newBotManager_def logTo_def Let_def)


section \<open>Properties of the rate limiter\<close>

lemma filter_length_mono: "(\<And>x. P x \<Longrightarrow> Q x) \<Longrightarrow> length (filter P xs) \<le> length (filter Q xs)"
  by (induction xs) auto

lemma Admit_config:
  "windowSize (snd (Admit i now rl)) = windowSize rl \<and> maxEvents (snd (Admit i now rl)) = maxEvents rl"
  by (simp add: Admit_def Let_def)

lemma within_le_times:
  "length (withinWindow i a w hist) \<le> length (filter (\<lambda>t. a \<le> t) (timesOf i hist))"
proof -
  have "length (filter (\<lambda>t. a \<le> t) (timesOf i hist)) = length (filter (\<lambda>p. fst p = i \<and> a \<le> snd p) hist)"
    by (simp add: timesOf_def filter_map comp_def conj_commute)
  moreover have "length (withinWindow i a w hist) \<le> length (filter (\<lambda>p. fst p = i \<and> a \<le> snd p) hist)"
    unfolding withinWindow_def by (rule filter_length_mono) simp
  ultimately show ?thesis by simp
qed

lemma Admit_rejects_keeps_inv:
  assumes "limiterInv rl hist T" and "T \<le> now"
  shows "limiterInv rl hist now"
  using assms unfolding limiterInv_def by (metis diff_right_mono order_trans)

lemma Admit_admits_keeps_inv:
  assumes inv: "limiterInv rl hist T" and mono: "T \<le> now"
    and room: "length (purge (windowSize rl) now (rateWindow rl i)) < maxEvents rl"
  shows "limiterInv (rl\<lparr>windows := (windows rl)(i \<mapsto> purge (windowSize rl) now (rateWindow rl i) @ [now])\<rparr>)
           (hist @ [(i, now)]) now"
proof -
  let ?W = "windowSize rl"
  let ?rl = "rl\<lparr>windows := (windows rl)(i \<mapsto> purge ?W now (rateWindow rl i) @ [now])\<rparr>"
  from inv have same: "\<And>j x. T - ?W \<le> x \<Longrightarrow>
      filter (\<lambda>t. x \<le> t) (timesOf j hist) = filter (\<lambda>t. x \<le> t) (rateWindow rl j)"
    and bound: "\<And>j a. length (withinWindow j a ?W hist) \<le> maxEvents rl"
    unfolding limiterInv_def by blast+
  have part1: "filter (\<lambda>t. x \<le> t) (timesOf j (hist @ [(i, now)])) = filter (\<lambda>t. x \<le> t) (rateWindow ?rl j)"
    if x: "now - ?W \<le> x" for j x
  proof -
    from x mono have xT: "T - ?W \<le> x" by simp
    show ?thesis
    proof (cases "j = i")
      case False
      then show ?thesis using same [OF xT, of j] by (simp add: timesOf_def rateWindow_def)
    next
      case True
      have "filter (\<lambda>t. x \<le> t) (purge ?W now (rateWindow rl i)) = filter (\<lambda>t. x \<le> t) (rateWindow rl i)"
        unfolding purge_def filter_filter using x by (intro filter_cong) auto
      then show ?thesis using True same [OF xT, of i] by (simp add: timesOf_def rateWindow_def)
    qed
  qed
  have part2: "length (withinWindow j a ?W (hist @ [(i, now)])) \<le> maxEvents rl" for j a
  proof (cases "j = i \<and> a \<le> now \<and> now \<le> a + ?W")
    case False
    then have "withinWindow j a ?W (hist @ [(i, now)]) = withinWindow j a ?W hist"
      by (auto simp: withinWindow_def)
    then show ?thesis using bound by simp
  next
    case True
    then have a: "now - ?W \<le> a" and ji: "j = i" by auto
    from a mono have aT: "T - ?W \<le> a" by simp
    have "length (withinWindow i a ?W hist) \<le> length (filter (\<lambda>t. a \<le> t) (timesOf i hist))"
      by (rule within_le_times)
    also have "\<dots> = length (filter (\<lambda>t. a \<le> t) (rateWindow rl i))"
      using same [OF aT, of i] by simp
    also have "\<dots> \<le> length (purge ?W now (rateWindow rl i))"
      unfolding purge_def using a by (intro filter_length_mono) auto
    finally have "length (withinWindow i a ?W hist) < maxEvents rl"
      using room by simp
    moreover have "withinWindow j a ?W (hist @ [(i, now)]) = withinWindow i a ?W hist @ [(i, now)]"
      using True by (simp add: withinWindow_def)
    ultimately show ?thesis by simp
  qed
  show ?thesis
    unfolding limiterInv_def using part1 part2 by simp
qed

lemma admitted_within_bound:
  "limiterInv rl hist T \<Longrightarrow> sorted (map snd calls) \<Longrightarrow> \<forall>p \<in> set calls. T \<le> snd p \<Longrightarrow>
   length (withinWindow i a (windowSize rl) (hist @ admitted rl calls)) \<le> maxEvents rl"
proof (induction calls arbitrary: rl hist T)
  case Nil
  then show ?case by (simp add: limiterInv_def)
next
  case (Cons call calls)
  obtain j now where call: "call = (j, now)" by (cases call)
  from Cons.prems call have mono: "T \<le> now" and srt: "sorted (map snd calls)"
    and later: "\<forall>p \<in> set calls. now \<le> snd p"
    by auto
  show ?case
  proof (cases "length (purge (windowSize rl) now (rateWindow rl j)) < maxEvents rl")
    case True
    let ?rl = "rl\<lparr>windows := (windows rl)(j \<mapsto> purge (windowSize rl) now (rateWindow rl j) @ [now])\<rparr>"
    have "limiterInv ?rl (hist @ [(j, now)]) now"
      using Cons.prems(1) mono True by (rule Admit_admits_keeps_inv)
    from Cons.IH [OF this srt later]
    show ?thesis using True by (simp add: call Admit_def Let_def)
  next
    case False
    have "limiterInv rl hist now"
      using Cons.prems(1) mono by (rule Admit_rejects_keeps_inv)
    from Cons.IH [OF this srt later]
    show ?thesis using False by (simp add: call Admit_def Let_def)
  qed
qed

lemma demo_admitted: "admitted demoLimiter demoCalls = [(''s'', 0), (''s'', 1), (''t'', 2), (''s'', 11), (''s'', 12)]"
  by (simp add: demoLimiter_def demoCalls_def Admit_def Let_def purge_def rateWindow_def)


section \<open>The claims\<close>

text \<open>
  Claim C1, as the code has it. \<open>onStart\<close> and \<open>onReply\<close> append the user's turn and
  cut the history before they call the model: whenever one of their parts comes to the
  call of the model, in whatever state the other handlers have left, the session holds
  at most 20 turns, and when the push has made the history longer than 20 only the
  newest 10 are kept, the oldest being dropped first. The assistant's turn is appended
  when the model has answered, to the session as it is then and with no check after it:
  it adds one turn whatever the length. The session holds 21 turns after an exchange
  that ran alone on a session of 19, and 22 when two exchanges on one session of 18
  overlap.
\<close>

theorem user_turn_cut_assistant_turn_unchecked:
  "(onStart_typed env cfg input ev outcome w = (AwaitingModel r req, w1) \<longrightarrow>
      conversations w1 (conversationKey ev) = Some r
      \<and> messages (heap w1 r) =
          (let xs = (case sessionOf w (conversationKey ev) of None \<Rightarrow> [] | Some c \<Rightarrow> messages c)
                    @ [\<lparr>role = ''user'', content = input, timestamp = clock env\<rparr>]
           in if 20 < length xs then sliceLast 10 xs else xs)
      \<and> length (messages (heap w1 r)) \<le> 20)
   \<and> (onReply_typed env cd ev rep input outcome w = (AwaitingModel r req, w1) \<longrightarrow>
      conversations w (conversationId rep) = Some r
      \<and> conversations w1 (conversationId rep) = Some r
      \<and> messages (heap w1 r) =
          (let xs = messages (heap w r) @ [\<lparr>role = ''user'', content = input, timestamp = clock env\<rparr>]
           in if 20 < length xs then sliceLast 10 xs else xs)
      \<and> length (messages (heap w1 r)) \<le> 20)
   \<and> (onReply_cached env ev rep input found w = (AwaitingModel r req, w1) \<longrightarrow>
      conversations w1 (conversationId rep) = Some r
      \<and> messages (heap w1 r) =
          (let xs = (case found of None \<Rightarrow> [] | Some c \<Rightarrow> messages c)
                    @ [\<lparr>role = ''user'', content = input, timestamp = clock env\<rparr>]
           in if 20 < length xs then sliceLast 10 xs else xs)
      \<and> length (messages (heap w1 r)) \<le> 20)
   \<and> (onStart_request env args ev w = (AwaitingModel r req, w1) \<longrightarrow>
      conversations w1 (conversationKey ev) = Some r
      \<and> messages (heap w1 r) =
          (let xs = (case sessionOf w (conversationKey ev) of None \<Rightarrow> [] | Some c \<Rightarrow> messages c)
                    @ [\<lparr>role = ''user'', content = strTrim env (join '' '' args), timestamp = clock env\<rparr>]
           in if 20 < length xs then sliceLast 10 xs else xs)
      \<and> length (messages (heap w1 r)) \<le> 20
      \<and> req = chatRequest (heap w1 r)
      \<and> onStart env cd args ev w = (Inr (), onStart_resume env cd ev r (createCompletion env req) w1))
   \<and> (onReply_request env cd ev rep w = (AwaitingModel r req, w1) \<longrightarrow>
      conversations w1 (conversationId rep) = Some r
      \<and> last (messages (heap w1 r)) =
          \<lparr>role = ''user'', content = strTrim env (body ev), timestamp = clock env\<rparr>
      \<and> length (messages (heap w1 r)) \<le> 20
      \<and> req = chatRequest (heap w1 r)
      \<and> onReply env cd ev rep w = (Inr (), onReply_resume env cd ev rep r (createCompletion env req) w1))
   \<and> messages (heap (onStart_resume env cd ev r (Inr answer) w) r) =
       messages (heap w r) @ [\<lparr>role = ''assistant'', content = answer, timestamp = clock env\<rparr>]
   \<and> messages (heap (onReply_resume env cd ev rep r (Inr answer) w) r) =
       messages (heap w r) @ [\<lparr>role = ''assistant'', content = answer, timestamp = clock env\<rparr>]
   \<and> sliceLast 10 xs = drop (length xs - 10) xs"
proof (intro conjI impI)
  assume "onStart_typed env cfg input ev outcome w = (AwaitingModel r req, w1)"
  then obtain w0 where w0: "exchangeRequest env input r w0 = (req, w1)"
    "conversations w0 (conversationKey ev) = Some r"
    "messages (heap w0 r) = (case sessionOf w (conversationKey ev) of None \<Rightarrow> [] | Some c \<Rightarrow> messages c)"
    using onStart_typed_awaiting [of env cfg input ev outcome w r req w1] by auto
  from request_leaves_twenty [OF w0]
  show "conversations w1 (conversationKey ev) = Some r"
    and "messages (heap w1 r) =
          (let xs = (case sessionOf w (conversationKey ev) of None \<Rightarrow> [] | Some c \<Rightarrow> messages c)
                    @ [\<lparr>role = ''user'', content = input, timestamp = clock env\<rparr>]
           in if 20 < length xs then sliceLast 10 xs else xs)"
    and "length (messages (heap w1 r)) \<le> 20"
    by blast+
next
  assume "onReply_typed env cd ev rep input outcome w = (AwaitingModel r req, w1)"
  then have w0: "exchangeRequest env input r w = (req, w1)" "conversations w (conversationId rep) = Some r"
    using onReply_typed_awaiting [of env cd ev rep input outcome w r req w1] by auto
  from request_leaves_twenty [OF w0 refl] w0(2)
  show "conversations w (conversationId rep) = Some r"
    and "conversations w1 (conversationId rep) = Some r"
    and "messages (heap w1 r) =
          (let xs = messages (heap w r) @ [\<lparr>role = ''user'', content = input, timestamp = clock env\<rparr>]
           in if 20 < length xs then sliceLast 10 xs else xs)"
    and "length (messages (heap w1 r)) \<le> 20"
    by blast+
next
  assume "onReply_cached env ev rep input found w = (AwaitingModel r req, w1)"
  then obtain c where c: "found = Some c" "r = nextRef w"
    "exchangeRequest env input r
          (w\<lparr>heap := (heap w)(nextRef w := c), nextRef := Suc (nextRef w),
             conversations := (conversations w)(conversationId rep \<mapsto> nextRef w)\<rparr>) = (req, w1)"
    using onReply_cached_awaiting [of env ev rep input found w r req w1] by auto
  have "conversations (w\<lparr>heap := (heap w)(nextRef w := c), nextRef := Suc (nextRef w),
             conversations := (conversations w)(conversationId rep \<mapsto> nextRef w)\<rparr>) (conversationId rep) = Some r"
    and "messages (heap (w\<lparr>heap := (heap w)(nextRef w := c), nextRef := Suc (nextRef w),
             conversations := (conversations w)(conversationId rep \<mapsto> nextRef w)\<rparr>) r) =
          (case found of None \<Rightarrow> [] | Some c \<Rightarrow> messages c)"
    using c(1,2) by simp_all
  from request_leaves_twenty [OF c(3) this]
  show "conversations w1 (conversationId rep) = Some r"
    and "messages (heap w1 r) =
          (let xs = (case found of None \<Rightarrow> [] | Some c \<Rightarrow> messages c)
                    @ [\<lparr>role = ''user'', content = input, timestamp = clock env\<rparr>]
           in if 20 < length xs then sliceLast 10 xs else xs)"
    and "length (messages (heap w1 r)) \<le> 20"
    by blast+
next
  assume a: "onStart_request env args ev w = (AwaitingModel r req, w1)"
  then obtain w0 where w0: "exchangeRequest env (strTrim env (join '' '' args)) r w0 = (req, w1)"
    "conversations w0 (conversationKey ev) = Some r"
    "messages (heap w0 r) = (case sessionOf w (conversationKey ev) of None \<Rightarrow> [] | Some c \<Rightarrow> messages c)"
    using onStart_request_awaiting [of env args ev w r req w1] by auto
  from request_leaves_twenty [OF w0]
  show "conversations w1 (conversationKey ev) = Some r"
    and "messages (heap w1 r) =
          (let xs = (case sessionOf w (conversationKey ev) of None \<Rightarrow> [] | Some c \<Rightarrow> messages c)
                    @ [\<lparr>role = ''user'', content = strTrim env (join '' '' args), timestamp = clock env\<rparr>]
           in if 20 < length xs then sliceLast 10 xs else xs)"
    and "length (messages (heap w1 r)) \<le> 20"
    and "req = chatRequest (heap w1 r)"
    by blast+
  from a show "onStart env cd args ev w = (Inr (), onStart_resume env cd ev r (createCompletion env req) w1)"
    by (simp add: onStart_def)
next
  assume a: "onReply_request env cd ev rep w = (AwaitingModel r req, w1)"
  then obtain w0 where w0: "exchangeRequest env (strTrim env (body ev)) r w0 = (req, w1)"
    "conversations w0 (conversationId rep) = Some r"
    using onReply_request_awaiting [of env cd ev rep w r req w1] by auto
  from request_leaves_twenty [OF w0 refl]
  show "conversations w1 (conversationId rep) = Some r"
    and "last (messages (heap w1 r)) =
          \<lparr>role = ''user'', content = strTrim env (body ev), timestamp = clock env\<rparr>"
    and "length (messages (heap w1 r)) \<le> 20"
    and "req = chatRequest (heap w1 r)"
    by blast+
  from a show "onReply env cd ev rep w = (Inr (), onReply_resume env cd ev rep r (createCompletion env req) w1)"
    by (simp add: onReply_def)
next
  show "messages (heap (onStart_resume env cd ev r (Inr answer) w) r) =
       messages (heap w r) @ [\<lparr>role = ''assistant'', content = answer, timestamp = clock env\<rparr>]"
    by (simp add: onStart_resume_answer appendAssistantTurn_def pushTurn_def)
  show "messages (heap (onReply_resume env cd ev rep r (Inr answer) w) r) =
       messages (heap w r) @ [\<lparr>role = ''assistant'', content = answer, timestamp = clock env\<rparr>]"
    by (simp add: onReply_resume_answer appendAssistantTurn_def pushTurn_def)
  show "sliceLast 10 xs = drop (length xs - 10) xs"
    by (simp add: sliceLast_def)
qed

theorem user_turn_cut_assistant_turn_unchecked_witness:
  "onStart_typed demoEnv \<lparr>apiKey = Some ''sk-test'', configModel = None\<rparr> ''hello'' (msgFrom ''u1'' ''ai hello'')
      None (worldWith 20) =
     (AwaitingModel 0 (fst (exchangeRequest demoEnv ''hello'' 0 (worldWith 20))),
      snd (exchangeRequest demoEnv ''hello'' 0 (worldWith 20)))
   \<and> length (messages (heap (snd (exchangeRequest demoEnv ''hello'' 0 (worldWith 20))) 0)) \<le> 20
   \<and> onReply_typed demoEnv demoCodec (msgFrom ''u1'' ''more'') demoPending ''more'' None (worldWith 20) =
     (AwaitingModel 0 (fst (exchangeRequest demoEnv ''more'' 0 (worldWith 20))),
      snd (exchangeRequest demoEnv ''more'' 0 (worldWith 20)))
   \<and> length (messages (heap (snd (exchangeRequest demoEnv ''more'' 0 (worldWith 20))) 0)) \<le> 20
   \<and> onReply_cached demoEnv (msgFrom ''u1'' ''more'') demoPending ''more'' (Some (conversationOf 25)) emptyWorld =
     (AwaitingModel 0
        (fst (exchangeRequest demoEnv ''more'' 0
               (emptyWorld\<lparr>heap := (heap emptyWorld)(0 := conversationOf 25), nextRef := Suc 0,
                  conversations := (conversations emptyWorld)(conversationId demoPending \<mapsto> 0)\<rparr>))),
      snd (exchangeRequest demoEnv ''more'' 0
               (emptyWorld\<lparr>heap := (heap emptyWorld)(0 := conversationOf 25), nextRef := Suc 0,
                  conversations := (conversations emptyWorld)(conversationId demoPending \<mapsto> 0)\<rparr>)))
   \<and> length (messages (heap
        (snd (exchangeRequest demoEnv ''more'' 0
               (emptyWorld\<lparr>heap := (heap emptyWorld)(0 := conversationOf 25), nextRef := Suc 0,
                  conversations := (conversations emptyWorld)(conversationId demoPending \<mapsto> 0)\<rparr>))) 0)) \<le> 20
   \<and> onStart_request demoEnv [''hello''] (msgFrom ''u1'' ''ai hello'') (worldWith 20) =
     (AwaitingModel 0
        (fst (exchangeRequest demoEnv ''hello'' 0 ((worldWith 20)\<lparr>typingSent := typingSent (worldWith 20) @ [''t1'']\<rparr>))),
      snd (exchangeRequest demoEnv ''hello'' 0 ((worldWith 20)\<lparr>typingSent := typingSent (worldWith 20) @ [''t1'']\<rparr>)))
   \<and> length (messages (heap
        (snd (exchangeRequest demoEnv ''hello'' 0 ((worldWith 20)\<lparr>typingSent := typingSent (worldWith 20) @ [''t1'']\<rparr>)))
        0)) \<le> 20
   \<and> onReply_request demoEnv demoCodec (msgFrom ''u1'' ''more'') demoPending (worldWith 20) =
     (AwaitingModel 0
        (fst (exchangeRequest demoEnv ''more'' 0 ((worldWith 20)\<lparr>typingSent := typingSent (worldWith 20) @ [''t1'']\<rparr>))),
      snd (exchangeRequest demoEnv ''more'' 0 ((worldWith 20)\<lparr>typingSent := typingSent (worldWith 20) @ [''t1'']\<rparr>)))
   \<and> length (messages (heap
        (snd (exchangeRequest demoEnv ''more'' 0 ((worldWith 20)\<lparr>typingSent := typingSent (worldWith 20) @ [''t1'']\<rparr>)))
        0)) \<le> 20
   \<and> length (messages (heap overlapped 0)) = 22"
proof -
  let ?ev = "msgFrom ''u1'' ''ai hello''"
  let ?ev' = "msgFrom ''u1'' ''more''"
  let ?cfg = "\<lparr>apiKey = Some ''sk-test'', configModel = None\<rparr>"
  let ?wt = "(worldWith 20)\<lparr>typingSent := typingSent (worldWith 20) @ [''t1'']\<rparr>"
  let ?wc = "emptyWorld\<lparr>heap := (heap emptyWorld)(0 := conversationOf 25), nextRef := Suc 0,
                  conversations := (conversations emptyWorld)(conversationId demoPending \<mapsto> 0)\<rparr>"
  let ?x1 = "exchangeRequest demoEnv ''hello'' 0 (worldWith 20)"
  let ?x2 = "exchangeRequest demoEnv ''more'' 0 (worldWith 20)"
  let ?x3 = "exchangeRequest demoEnv ''more'' 0 ?wc"
  let ?x4 = "exchangeRequest demoEnv ''hello'' 0 ?wt"
  let ?x5 = "exchangeRequest demoEnv ''more'' 0 ?wt"
  have c: "conversations (worldWith 20) ''t1_u1'' = Some 0"
    by (simp add: worldWith_def)
  have ck: "conversations (worldWith 20) (conversationKey ?ev) = Some 0"
    by (simp add: key_u1 c)
  have cp: "conversations (worldWith 20) (conversationId demoPending) = Some 0"
    by (simp add: demoPending_def c)
  have n0: "nextRef emptyWorld = 0"
    by (simp add: emptyWorld_def)
  have h1: "onStart_typed demoEnv ?cfg ''hello'' ?ev None (worldWith 20) = (AwaitingModel 0 (fst ?x1), snd ?x1)"
    by (rule onStart_typed_eval [OF ck])
  have h2: "onReply_typed demoEnv demoCodec ?ev' demoPending ''more'' None (worldWith 20) =
      (AwaitingModel 0 (fst ?x2), snd ?x2)"
    by (rule onReply_typed_eval [OF cp])
  have h3: "onReply_cached demoEnv ?ev' demoPending ''more'' (Some (conversationOf 25)) emptyWorld =
      (AwaitingModel 0 (fst ?x3), snd ?x3)"
    using onReply_cached_eval [of demoEnv ?ev' demoPending "''more''" "conversationOf 25" emptyWorld]
    by (simp add: n0)
  have h4: "onStart_request demoEnv [''hello''] ?ev (worldWith 20) = (AwaitingModel 0 (fst ?x4), snd ?x4)"
    by (rule hello_request_demo [OF c])
  have h5: "onReply_request demoEnv demoCodec ?ev' demoPending (worldWith 20) = (AwaitingModel 0 (fst ?x5), snd ?x5)"
    by (rule more_request_demo [OF c])
  have b1: "length (messages (heap (snd ?x1) 0)) \<le> 20"
    using h1 user_turn_cut_assistant_turn_unchecked [where env = demoEnv and cfg = ?cfg and input = "''hello''"
        and ev = ?ev and outcome = None and w = "worldWith 20" and r = 0 and req = "fst ?x1" and ?w1.0 = "snd ?x1"
        and cd = demoCodec and rep = demoPending and found = "None" and args = "[''hello'']"
        and answer = "''hello''" and xs = "[] :: turn list"]
    by blast
  have b2: "length (messages (heap (snd ?x2) 0)) \<le> 20"
    using h2 user_turn_cut_assistant_turn_unchecked [where env = demoEnv and cfg = ?cfg and input = "''more''"
        and ev = ?ev' and outcome = None and w = "worldWith 20" and r = 0 and req = "fst ?x2" and ?w1.0 = "snd ?x2"
        and cd = demoCodec and rep = demoPending and found = "None" and args = "[''hello'']"
        and answer = "''hello''" and xs = "[] :: turn list"]
    by blast
  have b3: "length (messages (heap (snd ?x3) 0)) \<le> 20"
    using h3 user_turn_cut_assistant_turn_unchecked [where env = demoEnv and cfg = ?cfg and input = "''more''"
        and ev = ?ev' and outcome = None and w = emptyWorld and r = 0 and req = "fst ?x3" and ?w1.0 = "snd ?x3"
        and cd = demoCodec and rep = demoPending and found = "Some (conversationOf 25)" and args = "[''hello'']"
        and answer = "''hello''" and xs = "[] :: turn list"]
    by blast
  have b4: "length (messages (heap (snd ?x4) 0)) \<le> 20"
    using h4 user_turn_cut_assistant_turn_unchecked [where env = demoEnv and cfg = ?cfg and input = "''hello''"
        and ev = ?ev and outcome = None and w = "worldWith 20" and r = 0 and req = "fst ?x4" and ?w1.0 = "snd ?x4"
        and cd = demoCodec and rep = demoPending and found = "None" and args = "[''hello'']"
        and answer = "''hello''" and xs = "[] :: turn list"]
    by blast
  have b5: "length (messages (heap (snd ?x5) 0)) \<le> 20"
    using h5 user_turn_cut_assistant_turn_unchecked [where env = demoEnv and cfg = ?cfg and input = "''more''"
        and ev = ?ev' and outcome = None and w = "worldWith 20" and r = 0 and req = "fst ?x5" and ?w1.0 = "snd ?x5"
        and cd = demoCodec and rep = demoPending and found = "None" and args = "[''hello'']"
        and answer = "''hello''" and xs = "[] :: turn list"]
    by blast
  from h1 b1 h2 b2 h3 b3 h4 b4 h5 b5 overlapping_run show ?thesis by blast
qed

text \<open>
  A session of 19 turns holds 21 after one exchange that ran alone: more than the 20 of
  the check and more than the 10 that a cut keeps.
\<close>

theorem history_cap_counterexample:
  "\<not> length (messages (the (sessionOf
      (snd (onStart demoEnv demoCodec [''hello''] (msgFrom ''u1'' ''ai hello'') (worldWith 19))) ''t1_u1''))) \<le> 20"
  by (simp add: full_run)

text \<open>
  Claim C2. With a clock that does not run backwards and a limiter that starts with no
  windows, the events admitted for an identity in any window of time \<open>[a, a + windowSize]\<close>
  are at most \<open>maxEvents\<close>. Each call admits exactly when fewer than \<open>maxEvents\<close>
  timestamps are left after the purge of those older than \<open>now - windowSize\<close>; an admitted
  call stores the purged window with \<open>now\<close> appended, a rejected call stores nothing, and
  the windows of the other identities stay as they are.
\<close>

theorem admit_respects_sliding_window:
  "(sorted (map snd calls) \<and> windows rl = Map.empty \<longrightarrow>
      length (withinWindow identity a (windowSize rl) (admitted rl calls)) \<le> maxEvents rl)
   \<and> (fst (Admit i now s) \<longleftrightarrow> length (purge (windowSize s) now (rateWindow s i)) < maxEvents s)
   \<and> (fst (Admit i now s) \<longrightarrow>
        rateWindow (snd (Admit i now s)) i = purge (windowSize s) now (rateWindow s i) @ [now])
   \<and> (\<not> fst (Admit i now s) \<longrightarrow> snd (Admit i now s) = s)
   \<and> (j \<noteq> i \<longrightarrow> rateWindow (snd (Admit i now s)) j = rateWindow s j)
   \<and> set (purge wsize now ts) = {t \<in> set ts. now - wsize \<le> t}"
proof (intro conjI impI)
  assume a: "sorted (map snd calls) \<and> windows rl = Map.empty"
  then have "limiterInv rl [] (case calls of [] \<Rightarrow> 0 | p # ps \<Rightarrow> snd p)"
    by (simp add: limiterInv_def timesOf_def rateWindow_def withinWindow_def)
  moreover have "\<forall>p \<in> set calls. (case calls of [] \<Rightarrow> 0 | p # ps \<Rightarrow> snd p) \<le> snd p"
    using a by (cases calls) auto
  ultimately show "length (withinWindow identity a (windowSize rl) (admitted rl calls)) \<le> maxEvents rl"
    using a admitted_within_bound [of rl "[]" _ calls identity a] by simp
qed (auto simp: Admit_def Let_def rateWindow_def purge_def)


theorem admit_respects_sliding_window_witness:
  "sorted (map snd demoCalls) \<and> windows demoLimiter = Map.empty
   \<and> length (withinWindow ''s'' 1 (windowSize demoLimiter) (admitted demoLimiter demoCalls)) \<le> maxEvents demoLimiter
   \<and> admitted demoLimiter demoCalls = [(''s'', 0), (''s'', 1), (''t'', 2), (''s'', 11), (''s'', 12)]
   \<and> fst (Admit ''s'' 5 (demoLimiter\<lparr>windows := [''s'' \<mapsto> [0, 1]]\<rparr>)) = False
   \<and> snd (Admit ''s'' 5 (demoLimiter\<lparr>windows := [''s'' \<mapsto> [0, 1]]\<rparr>)) = demoLimiter\<lparr>windows := [''s'' \<mapsto> [0, 1]]\<rparr>"
proof -
  have h: "sorted (map snd demoCalls) \<and> windows demoLimiter = Map.empty"
    by (simp add: demoCalls_def demoLimiter_def)
  have r: "\<not> fst (Admit ''s'' 5 (demoLimiter\<lparr>windows := [''s'' \<mapsto> [0, 1]]\<rparr>))"
    by (simp add: Admit_def Let_def purge_def rateWindow_def demoLimiter_def)
  show ?thesis
    using h r demo_admitted
      admit_respects_sliding_window [of demoCalls demoLimiter "''s''" 1 "''s''" 5
        "demoLimiter\<lparr>windows := [''s'' \<mapsto> [0, 1]]\<rparr>" "''t''" 10 "[]"]
    by simp
qed

text \<open>
  Claim C3. \<open>handleMessage\<close> asks the security manager first. When it denies, the rate
  limiter is not asked (its state is as before, whatever \<open>checkLimit\<close> would do) and the
  message handler is not invoked; when it allows and the rate limiter rejects, the message
  handler is not invoked. In both cases the state of the message handler and the transport
  are untouched: nothing is sent, replied or reacted.
\<close>

theorem blocked_event_never_reaches_handler:
  "(securityManager b = Some sec \<and> checkMessage c m sec = (Inr False, sec') \<longrightarrow>
      handleMessage c m b =
        (Inr (), b\<lparr>stats := (stats b)\<lparr>messagesProcessed := messagesProcessed (stats b) + 1\<rparr>,
                   securityManager := Some sec',
                   logger := logger b @ [Log Security (''Message blocked by security check: '' @ senderID m) None]\<rparr>))
   \<and> (securityManager b = Some sec \<and> checkMessage c m sec = (Inr True, sec') \<and>
      rateLimiter b = Some rl \<and> checkLimit c (senderID m) rl = (Inr False, rl') \<longrightarrow>
      handleMessage c m b =
        (Inr (), b\<lparr>stats := (stats b)\<lparr>messagesProcessed := messagesProcessed (stats b) + 1\<rparr>,
                   securityManager := Some sec', rateLimiter := Some rl',
                   logger := logger b @ [Log Security (''Rate limit exceeded for user: '' @ senderID m) None]\<rparr>))"
  by (simp add: bot_defs)


theorem blocked_event_never_reaches_handler_witness:
  "handleMessage demoCollab (msgFrom ''blocked'' ''hi'') demoBot =
     (Inr (), demoBot\<lparr>stats := (stats demoBot)\<lparr>messagesProcessed := 1\<rparr>,
                   securityManager := Some 1,
                   logger := [Log Security ''Message blocked by security check: blocked'' None]\<rparr>)
   \<and> handleMessage demoCollab (msgFrom ''flood'' ''hi'') demoBot =
     (Inr (), demoBot\<lparr>stats := (stats demoBot)\<lparr>messagesProcessed := 1\<rparr>,
                   securityManager := Some 1, rateLimiter := Some 1,
                   logger := [Log Security ''Rate limit exceeded for user: flood'' None]\<rparr>)"
  using blocked_event_never_reaches_handler [of demoBot 0 demoCollab "msgFrom ''blocked'' ''hi''" 1 0 1]
        blocked_event_never_reaches_handler [of demoBot 0 demoCollab "msgFrom ''flood'' ''hi''" 1 0 1]
  by (simp add: demoBot_def demoCollab_def msgFrom_def newBotManager_def)

text \<open>
  Claim C4, as the code has it. \<open>handleMessage\<close> counts every message in
  \<open>messagesProcessed\<close> before the checks, so a denied message adds one to it;
  \<open>commandsExecuted\<close> and \<open>errors\<close> stay as they are, and the log gains the one
  security entry.
\<close>

theorem blocked_event_counters:
  "(securityManager b = Some sec \<and> checkMessage c m sec = (Inr False, sec'))
   \<or> (securityManager b = Some sec \<and> checkMessage c m sec = (Inr True, sec') \<and>
       rateLimiter b = Some rl \<and> checkLimit c (senderID m) rl = (Inr False, rl'))
   \<Longrightarrow> messagesProcessed (stats (snd (handleMessage c m b))) = messagesProcessed (stats b) + 1
     \<and> commandsExecuted (stats (snd (handleMessage c m b))) = commandsExecuted (stats b)
     \<and> errors (stats (snd (handleMessage c m b))) = errors (stats b)
     \<and> (\<exists>text. logger (snd (handleMessage c m b)) = logger b @ [Log Security text None])"
  by (auto simp: bot_defs)


theorem blocked_event_counters_witness:
  "messagesProcessed (stats (snd (handleMessage demoCollab (msgFrom ''flood'' ''hi'') demoBot))) = 1
   \<and> commandsExecuted (stats (snd (handleMessage demoCollab (msgFrom ''flood'' ''hi'') demoBot))) = 0
   \<and> errors (stats (snd (handleMessage demoCollab (msgFrom ''flood'' ''hi'') demoBot))) = 0
   \<and> (\<exists>text. logger (snd (handleMessage demoCollab (msgFrom ''flood'' ''hi'') demoBot)) = [Log Security text None])
   \<and> messagesProcessed (stats (snd (handleMessage demoCollab (msgFrom ''blocked'' ''hi'') demoBot))) = 1
   \<and> errors (stats (snd (handleMessage demoCollab (msgFrom ''blocked'' ''hi'') demoBot))) = 0"
  using blocked_event_counters [of demoBot 0 demoCollab "msgFrom ''flood'' ''hi''" 1 0 1]
        blocked_event_counters [of demoBot 0 demoCollab "msgFrom ''blocked'' ''hi''" 1 0 1]
  by (simp add: demoBot_def demoCollab_def msgFrom_def newBotManager_def)

text \<open>A message of a denied sender is counted as processed.\<close>

theorem blocked_event_counts_as_processed_counterexample:
  "messagesProcessed (stats (snd (handleMessage demoCollab (msgFrom ''blocked'' ''hi'') demoBot)))
     \<noteq> messagesProcessed (stats demoBot)"
  by (simp add: bot_defs demoBot_def demoCollab_def msgFrom_def newBotManager_def)

text \<open>
  Claim C5. The three listeners always return normally. When the handler of a message,
  of an event or of a reaction throws, \<open>errors\<close> grows by one and the error is logged
  once, by the \<open>catch\<close> of the handling method.
\<close>

theorem handler_fault_is_contained:
  "fst (onMessage c m b) = Inr () \<and> fst (onEvent c ev b) = Inr () \<and> fst (onReaction c r b) = Inr ()
   \<and> (securityManager b = Some sec \<and> checkMessage c m sec = (Inr True, sec') \<and>
      rateLimiter b = Some rl \<and> checkLimit c (senderID m) rl = (Inr True, rl') \<and>
      messageHandler b = Some mh \<and> handle c m mh = (Inl e, mh') \<longrightarrow>
        errors (stats (snd (onMessage c m b))) = errors (stats b) + 1
        \<and> logger (snd (onMessage c m b)) = logger b @ [Log Error ''Error in message handler:'' (Some e)])
   \<and> (eventManager b = Some em \<and> handleEv c ev em = (Inl e, em') \<longrightarrow>
        errors (stats (snd (onEvent c ev b))) = errors (stats b) + 1
        \<and> logger (snd (onEvent c ev b)) = logger b @ [Log Error ''Error in event handler:'' (Some e)])
   \<and> (messageHandler b = Some mh \<and> handleReaction c r mh = (Inl e, mh') \<longrightarrow>
        errors (stats (snd (onReaction c r b))) = errors (stats b) + 1
        \<and> logger (snd (onReaction c r b)) = logger b @ [Log Error ''Error in reaction handler:'' (Some e)])"
proof (intro conjI impI)
  show "fst (onMessage c m b) = Inr ()" by (simp add: onMessage_def listenerCatch_returns)
  show "fst (onEvent c ev b) = Inr ()" by (simp add: onEvent_def listenerCatch_returns)
  show "fst (onReaction c r b) = Inr ()" by (simp add: onReaction_def listenerCatch_returns)
next
  assume "securityManager b = Some sec \<and> checkMessage c m sec = (Inr True, sec') \<and>
      rateLimiter b = Some rl \<and> checkLimit c (senderID m) rl = (Inr True, rl') \<and>
      messageHandler b = Some mh \<and> handle c m mh = (Inl e, mh')"
  then have hm: "handleMessage c m b =
     (Inr (), countError (logTo (Log Error ''Error in message handler:'' (Some e))
        (b\<lparr>stats := (stats b)\<lparr>messagesProcessed := messagesProcessed (stats b) + 1\<rparr>,
           securityManager := Some sec', rateLimiter := Some rl', messageHandler := Some mh'\<rparr>)))"
    by (simp add: handleMessage_def handleMessage_try_def Let_def)
  show "errors (stats (snd (onMessage c m b))) = errors (stats b) + 1"
    by (simp add: onMessage_def listenerCatch_def hm countError_def logTo_def)
  show "logger (snd (onMessage c m b)) = logger b @ [Log Error ''Error in message handler:'' (Some e)]"
    by (simp add: onMessage_def listenerCatch_def hm countError_def logTo_def)
next
  assume a: "eventManager b = Some em \<and> handleEv c ev em = (Inl e, em')"
  show "errors (stats (snd (onEvent c ev b))) = errors (stats b) + 1"
    using a by (simp add: onEvent_def listenerCatch_def handleEvent_def countError_def logTo_def)
  show "logger (snd (onEvent c ev b)) = logger b @ [Log Error ''Error in event handler:'' (Some e)]"
    using a by (simp add: onEvent_def listenerCatch_def handleEvent_def countError_def logTo_def)
next
  assume a: "messageHandler b = Some mh \<and> handleReaction c r mh = (Inl e, mh')"
  show "errors (stats (snd (onReaction c r b))) = errors (stats b) + 1"
    using a by (simp add: onReaction_def listenerCatch_def handleReactionB_def countError_def logTo_def)
  show "logger (snd (onReaction c r b)) = logger b @ [Log Error ''Error in reaction handler:'' (Some e)]"
    using a by (simp add: onReaction_def listenerCatch_def handleReactionB_def countError_def logTo_def)
qed


theorem handler_fault_is_contained_witness:
  "fst (onMessage demoCollab (msgFrom ''u1'' ''boom'') demoBot) = Inr ()
   \<and> errors (stats (snd (onMessage demoCollab (msgFrom ''u1'' ''boom'') demoBot))) = 1
   \<and> logger (snd (onMessage demoCollab (msgFrom ''u1'' ''boom'') demoBot))
       = [Log Error ''Error in message handler:'' (Some boomError)]
   \<and> errors (stats (snd (onEvent demoCollab \<lparr>eventType = ''boom'', payload = []\<rparr> demoBot))) = 1
   \<and> errors (stats (snd (onReaction demoCollab
         \<lparr>reactSenderID = ''u1'', reactMessageID = ''m1'', emoji = ''boom''\<rparr> demoBot))) = 1"
  using handler_fault_is_contained [of demoCollab "msgFrom ''u1'' ''boom''" demoBot
          "\<lparr>eventType = ''boom'', payload = []\<rparr>"
          "\<lparr>reactSenderID = ''u1'', reactMessageID = ''m1'', emoji = ''boom''\<rparr>"
          0 1 0 1 "[]" boomError "[]" 0 0]
  by (simp add: demoBot_def demoCollab_def msgFrom_def newBotManager_def)


text \<open>
  Claim C6, as the code has it. When \<open>onStart\<close> calls the language model and the call
  fails with the code \<open>insufficient_quota\<close>, the user is sent the quota message and the
  session holds the turns of the request, the user's turn last: no assistant turn is
  appended. \<open>onStart\<close> catches the error itself and returns normally, so
  \<open>handleMessage\<close> does not count it: \<open>errors\<close> stays as it is. The message handler is
  taken to hand the message to \<open>onStart\<close>.
\<close>

theorem quota_failure_answered_not_counted:
  assumes "securityManager b = Some sec" and "checkMessage c m sec = (Inr True, sec')"
    and "rateLimiter b = Some rl" and "checkLimit c (senderID m) rl = (Inr True, rl')"
    and "messageHandler b = Some w" and "handle c m = onStart env cd args m"
    and "createCompletion env req = Inl e" and "err_code e = Some ''insufficient_quota''"
    and "requests (snd (onStart env cd args m w)) = requests w @ [req]"
  shows "fst (handleMessage c m b) = Inr ()
    \<and> errors (stats (snd (handleMessage c m b))) = errors (stats b)
    \<and> (\<exists>w1 c1. messageHandler (snd (handleMessage c m b)) = Some w1
          \<and> outbox w1 = outbox w @ [msgQuota]
          \<and> sessionOf w1 (threadID m @ ''_'' @ senderID m) = Some c1
          \<and> chatRequest c1 = req
          \<and> role (last (messages c1)) = ''user'')"
proof -
  from onStart_quota [OF assms(7,8,9)] obtain c1 where
    run: "fst (onStart env cd args m w) = Inr ()"
      "outbox (snd (onStart env cd args m w)) = outbox w @ [msgQuota]"
      "sessionOf (snd (onStart env cd args m w)) (conversationKey m) = Some c1"
    and c1: "chatRequest c1 = req" "role (last (messages c1)) = ''user''"
    by blast
  from run(1) obtain w2 where pair: "onStart env cd args m w = (Inr (), w2)"
    by (cases "onStart env cd args m w") simp
  have hm: "handleMessage c m b =
     (Inr (), b\<lparr>stats := (stats b)\<lparr>messagesProcessed := messagesProcessed (stats b) + 1\<rparr>,
                securityManager := Some sec', rateLimiter := Some rl',
                messageHandler := Some (snd (onStart env cd args m w))\<rparr>)"
    using assms(1-6) by (simp add: handleMessage_def handleMessage_try_def Let_def pair)
  have k: "sessionOf (snd (onStart env cd args m w)) (threadID m @ ''_'' @ senderID m) = Some c1"
    using run(3) by (simp only: conversationKey_def)
  show ?thesis
    unfolding hm using c1 run(2) k by simp
qed

theorem quota_failure_answered_not_counted_witness:
  "fst (handleMessage (aiCollab quotaEnv) (msgFrom ''u1'' ''ai hello'') aiBot) = Inr ()
    \<and> errors (stats (snd (handleMessage (aiCollab quotaEnv) (msgFrom ''u1'' ''ai hello'') aiBot))) = errors (stats aiBot)
    \<and> (\<exists>w1 c1. messageHandler (snd (handleMessage (aiCollab quotaEnv) (msgFrom ''u1'' ''ai hello'') aiBot)) = Some w1
          \<and> outbox w1 = outbox emptyWorld @ [msgQuota]
          \<and> sessionOf w1 (threadID (msgFrom ''u1'' ''ai hello'') @ ''_'' @ senderID (msgFrom ''u1'' ''ai hello'')) = Some c1
          \<and> chatRequest c1 = helloRequest
          \<and> role (last (messages c1)) = ''user'')"
proof (rule quota_failure_answered_not_counted)
  show "securityManager aiBot = Some 0" by (simp add: aiBot_def)
  show "checkMessage (aiCollab quotaEnv) (msgFrom ''u1'' ''ai hello'') 0 = (Inr True, 0)"
    by (simp add: aiCollab_def)
  show "rateLimiter aiBot = Some 0" by (simp add: aiBot_def)
  show "checkLimit (aiCollab quotaEnv) (senderID (msgFrom ''u1'' ''ai hello'')) 0 = (Inr True, 0)"
    by (simp add: aiCollab_def)
  show "messageHandler aiBot = Some emptyWorld" by (simp add: aiBot_def)
  show "handle (aiCollab quotaEnv) (msgFrom ''u1'' ''ai hello'') =
      onStart quotaEnv demoCodec [''hello''] (msgFrom ''u1'' ''ai hello'')"
    by (simp add: aiCollab_def)
  show "createCompletion quotaEnv helloRequest = Inl quotaError" by (simp add: quotaEnv_def)
  show "err_code quotaError = Some ''insufficient_quota''" by (simp add: quotaError_def)
  show "requests (snd (onStart quotaEnv demoCodec [''hello''] (msgFrom ''u1'' ''ai hello'') emptyWorld))
      = requests emptyWorld @ [helloRequest]"
    by (simp add: quota_requests) (simp add: emptyWorld_def)
qed

text \<open>The model is out of quota, the request was made, and \<open>errors\<close> has not moved.\<close>

theorem quota_failure_counterexample:
  "createCompletion quotaEnv helloRequest = Inl quotaError
   \<and> requests (the (messageHandler (snd (handleMessage (aiCollab quotaEnv) (msgFrom ''u1'' ''ai hello'') aiBot))))
       = [helloRequest]
   \<and> errors (stats (snd (handleMessage (aiCollab quotaEnv) (msgFrom ''u1'' ''ai hello'') aiBot)))
       \<noteq> errors (stats aiBot) + 1"
  by (simp add: quota_dispatch quota_requests) (simp add: quotaEnv_def aiBot_def newBotManager_def)

text \<open>
  Claim C7. A reply of the author with a text to send and a configuration that gives a
  client: \<open>onReply\<close> sets the typing indicator, and the cache read never throws. Once the
  indicator is set, when the \<open>conversations\<close> map has the session \<open>onReply\<close> goes on
  with that object and the cache is not read; on a miss it reads the cache; a session
  found there becomes the entry of the map, with which \<open>onReply\<close> goes on; when the
  cache has none either, \<open>onReply\<close> answers that the conversation was not found, with no
  request to the language model and no change of the sessions. This holds of each part
  of \<open>onReply\<close> in whatever state the other handlers have left, and of \<open>onReply\<close> as a
  whole when no other handler runs while it waits.
\<close>

theorem reply_looks_up_memory_then_cache:
  assumes "senderID ev = author rep" and "strTrim env (body ev) \<noteq> []"
    and "strLower env (strTrim env (body ev)) \<noteq> ''clear''"
    and "getAIConfig env = Inr cfg" and "openaiClient env (apiKey cfg) = None"
    and "typingIndicator env (threadID ev) = None"
  shows "(\<exists>found db1. cacheGet cd (cacheKey (conversationId rep)) (database w) = (Inr found, db1))
   \<and> onReply_begin env ev rep w =
       (AwaitingTyping cfg (strTrim env (body ev)), w\<lparr>typingSent := typingSent w @ [threadID ev]\<rparr>)
   \<and> (conversations w (conversationId rep) = Some r \<longrightarrow>
        (case exchangeRequest env input r w of
           (req, w1) \<Rightarrow>
             onReply_typed env cd ev rep input None w = (AwaitingModel r req, w1) \<and> database w1 = database w))
   \<and> (conversations w (conversationId rep) = None
      \<and> cacheGet cd (cacheKey (conversationId rep)) (database w) = (Inr found, db1) \<longrightarrow>
        onReply_typed env cd ev rep input None w = (AwaitingCache input found, w\<lparr>database := db1\<rparr>))
   \<and> (case exchangeRequest env input (nextRef w)
              (w\<lparr>heap := (heap w)(nextRef w := c), nextRef := Suc (nextRef w),
                 conversations := (conversations w)(conversationId rep \<mapsto> nextRef w)\<rparr>) of
         (req, w1) \<Rightarrow>
           onReply_cached env ev rep input (Some c) w = (AwaitingModel (nextRef w) req, w1)
           \<and> sessionOf w1 (conversationId rep) =
               Some (appendUserTurn input (clock env) (c\<lparr>lastUsed := clock env\<rparr>)))
   \<and> onReply_cached env ev rep input None w = (Finished, w\<lparr>outbox := outbox w @ [msgNotFound]\<rparr>)
   \<and> (conversations w (conversationId rep) = Some r \<longrightarrow>
        (case exchangeRequest env (strTrim env (body ev)) r (w\<lparr>typingSent := typingSent w @ [threadID ev]\<rparr>) of
           (req, w1) \<Rightarrow>
             onReply_request env cd ev rep w = (AwaitingModel r req, w1)
             \<and> onReply env cd ev rep w = (Inr (), onReply_resume env cd ev rep r (createCompletion env req) w1)
             \<and> sessionOf w1 (conversationId rep) =
                 Some (appendUserTurn (strTrim env (body ev)) (clock env) ((heap w r)\<lparr>lastUsed := clock env\<rparr>))
             \<and> database w1 = database w))
   \<and> (conversations w (conversationId rep) = None
      \<and> cacheGet cd (cacheKey (conversationId rep)) (database w) = (Inr (Some c), db1) \<longrightarrow>
        (case exchangeRequest env (strTrim env (body ev)) (nextRef w)
                (w\<lparr>typingSent := typingSent w @ [threadID ev], database := db1,
                   heap := (heap w)(nextRef w := c), nextRef := Suc (nextRef w),
                   conversations := (conversations w)(conversationId rep \<mapsto> nextRef w)\<rparr>) of
           (req, w1) \<Rightarrow>
             onReply_request env cd ev rep w = (AwaitingModel (nextRef w) req, w1)
             \<and> onReply env cd ev rep w =
                 (Inr (), onReply_resume env cd ev rep (nextRef w) (createCompletion env req) w1)
             \<and> sessionOf w1 (conversationId rep) =
                 Some (appendUserTurn (strTrim env (body ev)) (clock env) (c\<lparr>lastUsed := clock env\<rparr>))))
   \<and> (conversations w (conversationId rep) = None
      \<and> cacheGet cd (cacheKey (conversationId rep)) (database w) = (Inr None, db1) \<longrightarrow>
        onReply env cd ev rep w =
          (Inr (), w\<lparr>typingSent := typingSent w @ [threadID ev], database := db1,
                     outbox := outbox w @ [msgNotFound]\<rparr>))"
proof (intro conjI impI)
  let ?in = "strTrim env (body ev)"
  let ?wt = "w\<lparr>typingSent := typingSent w @ [threadID ev]\<rparr>"
  have b: "onReply_begin env ev rep w = (AwaitingTyping cfg ?in, ?wt)"
    using assms(1-5) by (rule onReply_begin_eval)
  have rq: "onReply_request env cd ev rep w =
      (case onReply_typed env cd ev rep ?in None ?wt of
         (AwaitingCache i found, w2) \<Rightarrow> onReply_cached env ev rep i found w2
       | (s, w2) \<Rightarrow> (s, w2))"
    by (simp only: onReply_request_def b assms(6) prod.case suspended.case)
  show "\<exists>found db1. cacheGet cd (cacheKey (conversationId rep)) (database w) = (Inr found, db1)"
    by (rule cacheGet_returns)
  show "onReply_begin env ev rep w = (AwaitingTyping cfg ?in, ?wt)"
    by (rule b)
  show "onReply_cached env ev rep input None w = (Finished, w\<lparr>outbox := outbox w @ [msgNotFound]\<rparr>)"
    by (simp add: onReply_cached_none reply_def)
  show "case exchangeRequest env input (nextRef w)
              (w\<lparr>heap := (heap w)(nextRef w := c), nextRef := Suc (nextRef w),
                 conversations := (conversations w)(conversationId rep \<mapsto> nextRef w)\<rparr>) of
         (req, w1) \<Rightarrow>
           onReply_cached env ev rep input (Some c) w = (AwaitingModel (nextRef w) req, w1)
           \<and> sessionOf w1 (conversationId rep) =
               Some (appendUserTurn input (clock env) (c\<lparr>lastUsed := clock env\<rparr>))"
  proof -
    let ?w0 = "w\<lparr>heap := (heap w)(nextRef w := c), nextRef := Suc (nextRef w),
                 conversations := (conversations w)(conversationId rep \<mapsto> nextRef w)\<rparr>"
    obtain req w1 where x: "exchangeRequest env input (nextRef w) ?w0 = (req, w1)"
      by (cases "exchangeRequest env input (nextRef w) ?w0")
    have "sessionOf w1 (conversationId rep) = Some (appendUserTurn input (clock env) (c\<lparr>lastUsed := clock env\<rparr>))"
      using exchangeRequest_result [OF x] by (simp add: sessionOf_def)
    then show ?thesis
      by (simp add: x onReply_cached_eval)
  qed
  {
    assume m: "conversations w (conversationId rep) = Some r"
    obtain req w1 where x: "exchangeRequest env input r w = (req, w1)"
      by (cases "exchangeRequest env input r w")
    have "database w1 = database w"
      using exchangeRequest_result [OF x] by simp
    then show "case exchangeRequest env input r w of
           (req, w1) \<Rightarrow>
             onReply_typed env cd ev rep input None w = (AwaitingModel r req, w1) \<and> database w1 = database w"
      by (simp add: x onReply_typed_eval [OF m])
  }
  {
    assume "conversations w (conversationId rep) = None
      \<and> cacheGet cd (cacheKey (conversationId rep)) (database w) = (Inr found, db1)"
    then show "onReply_typed env cd ev rep input None w = (AwaitingCache input found, w\<lparr>database := db1\<rparr>)"
      by (simp add: onReply_typed_miss)
  }
  {
    assume m: "conversations w (conversationId rep) = Some r"
    then have mt: "conversations ?wt (conversationId rep) = Some r" by simp
    obtain req w1 where x: "exchangeRequest env ?in r ?wt = (req, w1)"
      by (cases "exchangeRequest env ?in r ?wt")
    have r1: "onReply_request env cd ev rep w = (AwaitingModel r req, w1)"
      by (simp add: rq onReply_typed_eval [OF mt] x)
    have "sessionOf w1 (conversationId rep) =
        Some (appendUserTurn ?in (clock env) ((heap w r)\<lparr>lastUsed := clock env\<rparr>))"
      and "database w1 = database w"
      using exchangeRequest_result [OF x] m by (simp_all add: sessionOf_def)
    then show "case exchangeRequest env ?in r ?wt of
           (req, w1) \<Rightarrow>
             onReply_request env cd ev rep w = (AwaitingModel r req, w1)
             \<and> onReply env cd ev rep w = (Inr (), onReply_resume env cd ev rep r (createCompletion env req) w1)
             \<and> sessionOf w1 (conversationId rep) =
                 Some (appendUserTurn ?in (clock env) ((heap w r)\<lparr>lastUsed := clock env\<rparr>))
             \<and> database w1 = database w"
      by (simp add: x r1 onReply_def)
  }
  {
    assume m: "conversations w (conversationId rep) = None
      \<and> cacheGet cd (cacheKey (conversationId rep)) (database w) = (Inr (Some c), db1)"
    let ?w0 = "w\<lparr>typingSent := typingSent w @ [threadID ev], database := db1,
                   heap := (heap w)(nextRef w := c), nextRef := Suc (nextRef w),
                   conversations := (conversations w)(conversationId rep \<mapsto> nextRef w)\<rparr>"
    obtain req w1 where x: "exchangeRequest env ?in (nextRef w) ?w0 = (req, w1)"
      by (cases "exchangeRequest env ?in (nextRef w) ?w0")
    have t: "onReply_typed env cd ev rep ?in None ?wt = (AwaitingCache ?in (Some c), ?wt\<lparr>database := db1\<rparr>)"
      using m by (simp add: onReply_typed_miss)
    have r1: "onReply_request env cd ev rep w = (AwaitingModel (nextRef w) req, w1)"
      using x by (simp add: rq t onReply_cached_eval)
    have "sessionOf w1 (conversationId rep) =
        Some (appendUserTurn ?in (clock env) (c\<lparr>lastUsed := clock env\<rparr>))"
      using exchangeRequest_result [OF x] by (simp add: sessionOf_def)
    then show "case exchangeRequest env ?in (nextRef w) ?w0 of
           (req, w1) \<Rightarrow>
             onReply_request env cd ev rep w = (AwaitingModel (nextRef w) req, w1)
             \<and> onReply env cd ev rep w =
                 (Inr (), onReply_resume env cd ev rep (nextRef w) (createCompletion env req) w1)
             \<and> sessionOf w1 (conversationId rep) =
                 Some (appendUserTurn ?in (clock env) (c\<lparr>lastUsed := clock env\<rparr>))"
      by (simp add: x r1 onReply_def)
  }
  {
    assume m: "conversations w (conversationId rep) = None
      \<and> cacheGet cd (cacheKey (conversationId rep)) (database w) = (Inr None, db1)"
    have t: "onReply_typed env cd ev rep ?in None ?wt = (AwaitingCache ?in None, ?wt\<lparr>database := db1\<rparr>)"
      using m by (simp add: onReply_typed_miss)
    show "onReply env cd ev rep w =
          (Inr (), w\<lparr>typingSent := typingSent w @ [threadID ev], database := db1,
                     outbox := outbox w @ [msgNotFound]\<rparr>)"
      by (simp add: onReply_def rq t onReply_cached_none reply_def)
  }
qed

theorem reply_looks_up_memory_then_cache_witness:
  "sessionOf (snd (onReply_request demoEnv demoCodec (msgFrom ''u1'' ''more'') demoPending (worldWith 3)))
      (conversationId demoPending) =
     Some (appendUserTurn ''more'' 42 ((conversationOf 3)\<lparr>lastUsed := 42\<rparr>))
   \<and> database (snd (onReply_request demoEnv demoCodec (msgFrom ''u1'' ''more'') demoPending (worldWith 3))) =
       database (worldWith 3)
   \<and> conversations cachedWorld (conversationId demoPending) = None
   \<and> sessionOf (snd (onReply_request demoEnv demoCodec (msgFrom ''u1'' ''more'') demoPending cachedWorld))
      (conversationId demoPending) =
     Some (appendUserTurn ''more'' 42 ((conversationOf 2)\<lparr>lastUsed := 42\<rparr>))
   \<and> onReply demoEnv demoCodec (msgFrom ''u1'' ''more'') demoPending emptyWorld =
       (Inr (), emptyWorld\<lparr>typingSent := typingSent emptyWorld @ [threadID (msgFrom ''u1'' ''more'')],
                  database := \<lparr>redis = None, dbLog = [Log Warning ''Redis not available, skipping cache get'' None]\<rparr>,
                  outbox := outbox emptyWorld @ [msgNotFound]\<rparr>)"
proof -
  let ?ev = "msgFrom ''u1'' ''more''"
  let ?cfg = "\<lparr>apiKey = Some ''sk-test'', configModel = None\<rparr>"
  have p1: "senderID ?ev = author demoPending"
    by (simp add: msgFrom_def demoPending_def)
  have p2: "strTrim demoEnv (body ?ev) \<noteq> []"
    by (simp add: demoEnv_def msgFrom_def trim_more)
  have p3: "strLower demoEnv (strTrim demoEnv (body ?ev)) \<noteq> ''clear''"
    by (simp add: demoEnv_def msgFrom_def trim_more lower_more)
  have p4: "getAIConfig demoEnv = Inr ?cfg"
    by (simp add: demoEnv_def)
  have p5: "openaiClient demoEnv (apiKey ?cfg) = None"
    by (simp add: demoEnv_def)
  have p6: "typingIndicator demoEnv (threadID ?ev) = None"
    by (simp add: demoEnv_def)
  note T = reply_looks_up_memory_then_cache [OF p1 p2 p3 p4 p5 p6]
  have tr: "strTrim demoEnv (body ?ev) = ''more''" "clock demoEnv = 42"
    by (simp_all add: demoEnv_def msgFrom_def trim_more)
  have m1: "conversations (worldWith 3) (conversationId demoPending) = Some 0"
    "heap (worldWith 3) 0 = conversationOf 3"
    by (simp_all add: worldWith_def demoPending_def)
  have m2: "conversations cachedWorld (conversationId demoPending) = None"
    by (simp add: cachedWorld_def emptyWorld_def)
  have g2: "cacheGet demoCodec (cacheKey (conversationId demoPending)) (database cachedWorld) =
      (Inr (Some (conversationOf 2)), database cachedWorld)"
    by (simp add: cacheGet_def cacheGet_try_def redisGet_def cachedWorld_def emptyWorld_def demoCodec_def
        demoPending_def)
  have m3: "conversations emptyWorld (conversationId demoPending) = None"
    by (simp add: emptyWorld_def)
  have g3: "cacheGet demoCodec (cacheKey (conversationId demoPending)) (database emptyWorld) =
      (Inr None, \<lparr>redis = None, dbLog = [Log Warning ''Redis not available, skipping cache get'' None]\<rparr>)"
    by (simp add: cacheGet_def emptyWorld_def dbLogTo_def)
  have a: "sessionOf (snd (onReply_request demoEnv demoCodec ?ev demoPending (worldWith 3)))
        (conversationId demoPending) =
       Some (appendUserTurn ''more'' 42 ((conversationOf 3)\<lparr>lastUsed := 42\<rparr>))
     \<and> database (snd (onReply_request demoEnv demoCodec ?ev demoPending (worldWith 3))) = database (worldWith 3)"
    using m1 tr T [where cd = demoCodec and w = "worldWith 3" and r = 0 and c = "conversationOf 2"
        and ?db1.0 = "database cachedWorld" and input = "''more''" and found = None]
    by (auto split: prod.splits)
  have b: "sessionOf (snd (onReply_request demoEnv demoCodec ?ev demoPending cachedWorld))
        (conversationId demoPending) =
       Some (appendUserTurn ''more'' 42 ((conversationOf 2)\<lparr>lastUsed := 42\<rparr>))"
    using m2 g2 tr T [where cd = demoCodec and w = cachedWorld and r = 0 and c = "conversationOf 2"
        and ?db1.0 = "database cachedWorld" and input = "''more''" and found = None]
    by (auto split: prod.splits)
  have c: "onReply demoEnv demoCodec ?ev demoPending emptyWorld =
       (Inr (), emptyWorld\<lparr>typingSent := typingSent emptyWorld @ [threadID ?ev],
                  database := \<lparr>redis = None, dbLog = [Log Warning ''Redis not available, skipping cache get'' None]\<rparr>,
                  outbox := outbox emptyWorld @ [msgNotFound]\<rparr>)"
    using m3 g3 T [where cd = demoCodec and w = emptyWorld and r = 0 and c = "conversationOf 2"
        and ?db1.0 = "\<lparr>redis = None, dbLog = [Log Warning ''Redis not available, skipping cache get'' None]\<rparr>"
        and input = "''more''" and found = None]
    by blast
  from a m2 b c show ?thesis by blast
qed

text \<open>
  Claim C8. \<open>cacheSet\<close> always returns: without a redis client it logs a warning and
  returns \<open>false\<close>; when the client rejects the write, or the value cannot be serialised,
  it logs the error and returns \<open>false\<close>. Once the model has answered, whatever the state
  of the cache, the conversation object holds the assistant's turn, the \<open>conversations\<close>
  map is as it was, the reply is sent and the exchange returns normally; so does an
  exchange that runs alone and whose model call succeeds.
\<close>

theorem cacheSet_never_throws:
  "(\<exists>ok db1. cacheSet cd key v ttl db = (Inr ok, db1))
   \<and> (redis db = None \<longrightarrow>
        cacheSet cd key v ttl db =
          (Inr False, dbLogTo (Log Warning ''Redis not available, skipping cache set'' None) db))
   \<and> (redis db = Some r \<and> stringify cd v = Inr json \<and> redisDown r = Some e \<longrightarrow>
        cacheSet cd key v ttl db =
          (Inr False, dbLogTo (Log Error (''Error setting cache for key '' @ key @ '':'') (Some e)) db))
   \<and> (redis db = Some r \<and> stringify cd v = Inl e \<longrightarrow>
        cacheSet cd key v ttl db =
          (Inr False, dbLogTo (Log Error (''Error setting cache for key '' @ key @ '':'') (Some e)) db))
   \<and> fst (exchangeComplete env cdc ev cid fmt ref (Inr answer) w) = Inr ()
   \<and> heap (snd (exchangeComplete env cdc ev cid fmt ref (Inr answer) w)) ref =
       appendAssistantTurn answer (clock env) (heap w ref)
   \<and> conversations (snd (exchangeComplete env cdc ev cid fmt ref (Inr answer) w)) = conversations w
   \<and> outbox (snd (exchangeComplete env cdc ev cid fmt ref (Inr answer) w)) = outbox w @ [fmt answer]
   \<and> (createCompletion env (chatRequest (appendUserTurn input (clock env) ((heap w ref)\<lparr>lastUsed := clock env\<rparr>))) = Inr answer \<longrightarrow>
        fst (chatExchange env cdc ev cid input fmt ref w) = Inr ()
        \<and> heap (snd (chatExchange env cdc ev cid input fmt ref w)) ref =
            appendAssistantTurn answer (clock env)
              (appendUserTurn input (clock env) ((heap w ref)\<lparr>lastUsed := clock env\<rparr>))
        \<and> conversations (snd (chatExchange env cdc ev cid input fmt ref w)) = conversations w)"
proof (intro conjI impI)
  show "\<exists>ok db1. cacheSet cd key v ttl db = (Inr ok, db1)" by (rule cacheSet_returns)
  show "fst (exchangeComplete env cdc ev cid fmt ref (Inr answer) w) = Inr ()"
    by (simp add: exchangeComplete_answer)
  show "heap (snd (exchangeComplete env cdc ev cid fmt ref (Inr answer) w)) ref =
       appendAssistantTurn answer (clock env) (heap w ref)"
    by (simp add: exchangeComplete_answer)
  show "conversations (snd (exchangeComplete env cdc ev cid fmt ref (Inr answer) w)) = conversations w"
    by (simp add: exchangeComplete_answer)
  show "outbox (snd (exchangeComplete env cdc ev cid fmt ref (Inr answer) w)) = outbox w @ [fmt answer]"
    by (rule exchangeComplete_outbox)
  {
    assume "redis db = None"
    then show "cacheSet cd key v ttl db =
          (Inr False, dbLogTo (Log Warning ''Redis not available, skipping cache set'' None) db)"
      by (simp add: cacheSet_def)
  }
  {
    assume "redis db = Some r \<and> stringify cd v = Inr json \<and> redisDown r = Some e"
    then show "cacheSet cd key v ttl db =
          (Inr False, dbLogTo (Log Error (''Error setting cache for key '' @ key @ '':'') (Some e)) db)"
      by (simp add: cacheSet_def cacheSet_try_def setEx_def redis_same)
  }
  {
    assume "redis db = Some r \<and> stringify cd v = Inl e"
    then show "cacheSet cd key v ttl db =
          (Inr False, dbLogTo (Log Error (''Error setting cache for key '' @ key @ '':'') (Some e)) db)"
      by (simp add: cacheSet_def cacheSet_try_def)
  }
  assume a: "createCompletion env (chatRequest (appendUserTurn input (clock env) ((heap w ref)\<lparr>lastUsed := clock env\<rparr>))) = Inr answer"
  let ?c1 = "appendUserTurn input (clock env) ((heap w ref)\<lparr>lastUsed := clock env\<rparr>)"
  let ?w1 = "w\<lparr>heap := (heap w)(ref := ?c1), requests := requests w @ [chatRequest ?c1]\<rparr>"
  have x: "chatExchange env cdc ev cid input fmt ref w = exchangeComplete env cdc ev cid fmt ref (Inr answer) ?w1"
    using a by (simp add: chatExchange_def exchangeRequest_def Let_def)
  show "fst (chatExchange env cdc ev cid input fmt ref w) = Inr ()"
    by (simp add: x exchangeComplete_answer)
  show "heap (snd (chatExchange env cdc ev cid input fmt ref w)) ref =
            appendAssistantTurn answer (clock env) ?c1"
    by (simp add: x exchangeComplete_answer)
  show "conversations (snd (chatExchange env cdc ev cid input fmt ref w)) = conversations w"
    by (simp add: x exchangeComplete_answer)
qed

theorem cacheSet_never_throws_witness:
  "redis (database emptyWorld) = None
   \<and> cacheSet demoCodec ''k'' (conversationOf 1) 3600 (database emptyWorld) =
     (Inr False, dbLogTo (Log Warning ''Redis not available, skipping cache set'' None) (database emptyWorld))
   \<and> cacheSet demoCodec ''k'' (conversationOf 1) 3600 (database downWorld) =
     (Inr False, dbLogTo (Log Error (''Error setting cache for key '' @ ''k'' @ '':'') (Some (JsError None ''ECONNREFUSED'')))
                   (database downWorld))
   \<and> cacheSet (demoCodec\<lparr>stringify := (\<lambda>v. Inl boomError)\<rparr>) ''k'' (conversationOf 1) 3600 (database cachedWorld) =
     (Inr False, dbLogTo (Log Error (''Error setting cache for key '' @ ''k'' @ '':'') (Some boomError)) (database cachedWorld))
   \<and> fst (chatExchange demoEnv demoCodec (msgFrom ''u1'' ''hi'') ''t1_u1'' ''hi'' formatStart 0 downWorld) = Inr ()
   \<and> heap (snd (chatExchange demoEnv demoCodec (msgFrom ''u1'' ''hi'') ''t1_u1'' ''hi'' formatStart 0 downWorld)) 0 =
       appendAssistantTurn ''hello'' (clock demoEnv)
         (appendUserTurn ''hi'' (clock demoEnv) ((heap downWorld 0)\<lparr>lastUsed := clock demoEnv\<rparr>))"
proof -
  have h1: "redis (database emptyWorld) = None"
    by (simp add: emptyWorld_def)
  have h2: "redis (database downWorld) = Some \<lparr>kv = Map.empty, redisDown = Some (JsError None ''ECONNREFUSED'')\<rparr>
      \<and> stringify demoCodec (conversationOf 1) = Inr (conversationOf 1)
      \<and> redisDown \<lparr>kv = Map.empty :: string \<rightharpoonup> (conversation \<times> nat), redisDown = Some (JsError None ''ECONNREFUSED'')\<rparr>
          = Some (JsError None ''ECONNREFUSED'')"
    by (simp add: downWorld_def emptyWorld_def demoCodec_def)
  have h3: "redis (database cachedWorld) = Some \<lparr>kv = [cacheKey ''t1_u1'' \<mapsto> (conversationOf 2, 3600)], redisDown = None\<rparr>
      \<and> stringify (demoCodec\<lparr>stringify := (\<lambda>v. Inl boomError)\<rparr>) (conversationOf 1) = Inl boomError"
    by (simp add: cachedWorld_def emptyWorld_def)
  have h4: "createCompletion demoEnv (chatRequest (appendUserTurn ''hi'' (clock demoEnv)
               ((heap downWorld 0)\<lparr>lastUsed := clock demoEnv\<rparr>))) = Inr ''hello''"
    by (simp add: demoEnv_def)
  have c1: "cacheSet demoCodec ''k'' (conversationOf 1) 3600 (database emptyWorld) =
     (Inr False, dbLogTo (Log Warning ''Redis not available, skipping cache set'' None) (database emptyWorld))"
    using h1 cacheSet_never_throws [where cd = demoCodec and key = "''k''" and v = "conversationOf 1"
          and ttl = 3600 and db = "database emptyWorld" and e = boomError and json = "conversationOf 1"
          and r = "\<lparr>kv = Map.empty, redisDown = None\<rparr>" and env = demoEnv and input = "''hi''" and ref = 0
          and answer = "''hello''" and cdc = demoCodec and ev = "msgFrom ''u1'' ''hi''" and cid = "''t1_u1''"
          and fmt = formatStart and w = downWorld]
    by blast
  have c2: "cacheSet demoCodec ''k'' (conversationOf 1) 3600 (database downWorld) =
     (Inr False, dbLogTo (Log Error (''Error setting cache for key '' @ ''k'' @ '':'') (Some (JsError None ''ECONNREFUSED'')))
                   (database downWorld))"
    using h2 cacheSet_never_throws [where cd = demoCodec and key = "''k''" and v = "conversationOf 1" and ttl = 3600
          and db = "database downWorld" and json = "conversationOf 1" and e = "JsError None ''ECONNREFUSED''"
          and r = "\<lparr>kv = Map.empty, redisDown = Some (JsError None ''ECONNREFUSED'')\<rparr>"
          and env = demoEnv and input = "''hi''" and ref = 0
          and answer = "''hello''" and cdc = demoCodec and ev = "msgFrom ''u1'' ''hi''" and cid = "''t1_u1''"
          and fmt = formatStart and w = downWorld]
    by blast
  have c3: "cacheSet (demoCodec\<lparr>stringify := (\<lambda>v. Inl boomError)\<rparr>) ''k'' (conversationOf 1) 3600 (database cachedWorld) =
     (Inr False, dbLogTo (Log Error (''Error setting cache for key '' @ ''k'' @ '':'') (Some boomError)) (database cachedWorld))"
    using h3 cacheSet_never_throws [where cd = "demoCodec\<lparr>stringify := (\<lambda>v. Inl boomError)\<rparr>" and key = "''k''"
          and v = "conversationOf 1" and ttl = 3600 and db = "database cachedWorld" and e = boomError
          and r = "\<lparr>kv = [cacheKey ''t1_u1'' \<mapsto> (conversationOf 2, 3600)], redisDown = None\<rparr>"
          and json = "conversationOf 1" and env = demoEnv and input = "''hi''" and ref = 0
          and answer = "''hello''" and cdc = demoCodec and ev = "msgFrom ''u1'' ''hi''" and cid = "''t1_u1''"
          and fmt = formatStart and w = downWorld]
    by blast
  have c4: "fst (chatExchange demoEnv demoCodec (msgFrom ''u1'' ''hi'') ''t1_u1'' ''hi'' formatStart 0 downWorld) = Inr ()
   \<and> heap (snd (chatExchange demoEnv demoCodec (msgFrom ''u1'' ''hi'') ''t1_u1'' ''hi'' formatStart 0 downWorld)) 0 =
       appendAssistantTurn ''hello'' (clock demoEnv)
         (appendUserTurn ''hi'' (clock demoEnv) ((heap downWorld 0)\<lparr>lastUsed := clock demoEnv\<rparr>))"
    using h4 cacheSet_never_throws [where cd = demoCodec and key = "''k''" and v = "conversationOf 1"
          and ttl = 3600 and db = "database emptyWorld" and e = boomError and json = "conversationOf 1"
          and r = "\<lparr>kv = Map.empty, redisDown = None\<rparr>" and env = demoEnv and input = "''hi''" and ref = 0
          and answer = "''hello''" and cdc = demoCodec and ev = "msgFrom ''u1'' ''hi''" and cid = "''t1_u1''"
          and fmt = formatStart and w = downWorld]
    by blast
  from h1 c1 c2 c3 c4 show ?thesis by simp
qed

text \<open>
  Claim C9. In every state the manager can reach, \<open>isReady()\<close> is a boolean: \<open>true\<close>
  exactly when the bot is running and the transport is connected.
\<close>

theorem isReady_is_boolean:
  assumes "reachable b"
  shows "isReady b = JBool (isRunning b \<and> (\<exists>a. facebookAPI b = Some a \<and> fbConnected a))"
proof (cases "isRunning b")
  case False
  then show ?thesis by (simp add: isReady_def)
next
  case True
  with running_has_transport [OF assms] obtain a where "facebookAPI b = Some a" by auto
  with True show ?thesis by (simp add: isReady_def)
qed


theorem isReady_is_boolean_witness:
  "reachable (snd (start demoStart (snd (initialize demoInit (newBotManager 0)))))
   \<and> isReady (snd (start demoStart (snd (initialize demoInit (newBotManager 0))))) = JBool True
   \<and> reachable (newBotManager 0 :: (nat, nat, string list, nat) BotManager)
   \<and> isReady (newBotManager 0 :: (nat, nat, string list, nat) BotManager) = JBool False"
proof -
  have r0: "reachable (newBotManager 0 :: (nat, nat, string list, nat) BotManager)"
    by (rule reach_new)
  have r1: "reachable (snd (start demoStart (snd (initialize demoInit (newBotManager 0)))))"
    by (rule reach_start, rule reach_initialize, rule reach_new)
  show ?thesis
    using r0 r1 isReady_is_boolean [OF r1] isReady_is_boolean [OF r0]
    by (simp add: demo_started) (simp add: newBotManager_def)
qed

text \<open>
  Claim C10. A reply whose sender is not the author of the pending entry is dropped by
  \<open>onReply\<close>: it returns normally and the whole state is as before, so nothing is sent,
  no session is read from the cache or changed, and the model is not called.
\<close>


theorem other_sender_reply_is_ignored:
  "senderID ev \<noteq> author rep \<Longrightarrow> onReply env cd ev rep w = (Inr (), w)"
  by (simp add: onReply_def onReply_request_def onReply_begin_def onReply_guard_def onReply_begin_try_def)

theorem other_sender_reply_is_ignored_witness:
  "senderID (msgFrom ''u2'' ''hi there'') \<noteq> author demoPending
   \<and> onReply demoEnv demoCodec (msgFrom ''u2'' ''hi there'') demoPending (worldWith 3) = (Inr (), worldWith 3)"
  using other_sender_reply_is_ignored [of "msgFrom ''u2'' ''hi there''" demoPending demoEnv demoCodec "worldWith 3"]
  by (simp add: msgFrom_def demoPending_def)

end
